theory Spec2Isabelle
  imports Complex_Main
begin

section \<open>Python values\<close>

text \<open>
  The program is \<^verbatim>\<open>main.py\<close>: three classes (\<^verbatim>\<open>EmailSender\<close>,
  \<^verbatim>\<open>PrometheusMetrics\<close>, \<^verbatim>\<open>PrometheusNotice\<close>) that query a metrics backend,
  build per-node records, render them and mail the report.

  Exceptions are values: an operation that can raise returns \<open>exn + 'a\<close>, with \<open>Inl\<close> the
  exception. The four built-in exceptions are the ones that subscripting, iterating and
  \<^verbatim>\<open>float()\<close> raise; \<open>LibraryError\<close> stands for any exception raised by a library or by
  the operating system (requests, smtplib, open, pandas, jinja2), named by its text.
\<close>

datatype exn = KeyError | TypeError | IndexError | ValueError | LibraryError string

definition and_then :: "exn + 'a \<Rightarrow> ('a \<Rightarrow> exn + 'b) \<Rightarrow> exn + 'b" where
  "and_then m f = (case m of Inl e \<Rightarrow> Inl e | Inr x \<Rightarrow> f x)"

text \<open>
  What \<^verbatim>\<open>response.json()\<close> returns. A Python float is carried as an exact rational:
  rounding, infinities and NaN are outside the embedding. An object is the association
  list of the decoded dict (keys distinct, in insertion order).
\<close>

datatype json =
    JNull
  | JBool bool
  | JNum rat
  | JStr string
  | JArr "json list"
  | JObj "(string \<times> json) list"

text \<open>\<^verbatim>\<open>x[key]\<close> with a string key: only a dict accepts it.\<close>

fun subscript_key :: "json \<Rightarrow> string \<Rightarrow> exn + json" where
  "subscript_key (JObj kvs) k = (case map_of kvs k of None \<Rightarrow> Inl KeyError | Some v \<Rightarrow> Inr v)"
| "subscript_key _ k = Inl TypeError"

text \<open>
  \<^verbatim>\<open>x[1]\<close>: a list and a string are indexed (IndexError when too short), a dict has no
  integer key (its keys are strings), anything else is not subscriptable.
\<close>

fun subscript_1 :: "json \<Rightarrow> exn + json" where
  "subscript_1 (JArr xs) = (if 1 < length xs then Inr (xs ! 1) else Inl IndexError)"
| "subscript_1 (JStr s) = (if 1 < length s then Inr (JStr [s ! 1]) else Inl IndexError)"
| "subscript_1 (JObj kvs) = Inl KeyError"
| "subscript_1 _ = Inl TypeError"

text \<open>
  \<^verbatim>\<open>iter(x)\<close>, as \<^verbatim>\<open>zip\<close> and a comprehension call it: a list yields its elements, a
  dict its keys, a string its characters; the other values are not iterable.
\<close>

fun py_iter :: "json \<Rightarrow> exn + json list" where
  "py_iter (JArr xs) = Inr xs"
| "py_iter (JObj kvs) = Inr (map (\<lambda>kv. JStr (fst kv)) kvs)"
| "py_iter (JStr s) = Inr (map (\<lambda>c. JStr [c]) s)"
| "py_iter _ = Inl TypeError"

subsection \<open>Decimal numerals\<close>

definition digit_val :: "char \<Rightarrow> nat option" where
  "digit_val =
     map_of [(CHR ''0'', 0), (CHR ''1'', 1), (CHR ''2'', 2), (CHR ''3'', 3), (CHR ''4'', 4),
             (CHR ''5'', 5), (CHR ''6'', 6), (CHR ''7'', 7), (CHR ''8'', 8), (CHR ''9'', 9)]"

fun digits_val :: "nat \<Rightarrow> string \<Rightarrow> nat option" where
  "digits_val acc [] = Some acc"
| "digits_val acc (c # cs) =
     (case digit_val c of None \<Rightarrow> None | Some d \<Rightarrow> digits_val (10 * acc + d) cs)"

text \<open>
  An unsigned decimal numeral \<^verbatim>\<open>ddd\<close>, \<^verbatim>\<open>ddd.ddd\<close>, \<^verbatim>\<open>ddd.\<close> or \<^verbatim>\<open>.ddd\<close>, with at least
  one digit.
\<close>

definition decimal_val :: "string \<Rightarrow> rat option" where
  "decimal_val s =
     (let ip = takeWhile (\<lambda>c. c \<noteq> CHR ''.'') s;
          rest = dropWhile (\<lambda>c. c \<noteq> CHR ''.'') s;
          fp = (if rest = [] then [] else tl rest)
      in if ip = [] \<and> fp = [] then None
         else (case (digits_val 0 ip, digits_val 0 fp) of
                 (Some i, Some f) \<Rightarrow> Some (of_nat i + of_nat f / 10 ^ length fp)
               | _ \<Rightarrow> None))"

text \<open>
  \<^verbatim>\<open>float(x)\<close>. A number converts to itself and a bool to 1 or 0; \<^verbatim>\<open>None\<close>, a list and
  a dict raise TypeError. A string is read as a signed decimal numeral, the spelling in
  which the backend writes a finite sample; a string that is no such numeral raises
  ValueError. (Python also reads exponents, surrounding blanks and the non-finite
  \<^verbatim>\<open>inf\<close> and \<^verbatim>\<open>nan\<close>; they have no rational value and stay outside the embedding.)
\<close>

fun py_float :: "json \<Rightarrow> exn + rat" where
  "py_float (JNum r) = Inr r"
| "py_float (JBool b) = Inr (if b then 1 else 0)"
| "py_float (JStr s) =
     (case (case s of
              c # cs \<Rightarrow>
                if c = CHR ''-'' then map_option uminus (decimal_val cs)
                else if c = CHR ''+'' then decimal_val cs
                else decimal_val s
            | [] \<Rightarrow> None) of
        None \<Rightarrow> Inl ValueError
      | Some r \<Rightarrow> Inr r)"
| "py_float _ = Inl TypeError"

subsection \<open>Formatting with two decimals\<close>

definition digit_char :: "nat \<Rightarrow> char" where
  "digit_char d = ''0123456789'' ! d"

fun show_nat :: "nat \<Rightarrow> string" where
  "show_nat n = (if n < 10 then [digit_char n] else show_nat (n div 10) @ [digit_char (n mod 10)])"

declare show_nat.simps [simp del]

text \<open>Rounding to the nearest integer, a tie going to the even neighbour.\<close>

definition round_half_even :: "rat \<Rightarrow> int" where
  "round_half_even q =
     (let f = \<lfloor>q\<rfloor>; d = q - of_int f
      in if d < 1 / 2 then f else if 1 / 2 < d then f + 1 else if even f then f else f + 1)"

text \<open>\<^verbatim>\<open>f"{x:.2f}"\<close>: sign, integer part, point, two digits.\<close>

definition fmt2 :: "rat \<Rightarrow> string" where
  "fmt2 x =
     (let n = nat (round_half_even (\<bar>x\<bar> * 100))
      in (if x < 0 then ''-'' else '''') @ show_nat (n div 100) @ ''.'' @
         [digit_char (n mod 100 div 10), digit_char (n mod 10)])"

subsection \<open>Unit formatting\<close>

text \<open>
  \<^verbatim>\<open>_format_bytes\<close>: the loop over \<^verbatim>\<open>['B', 'KB', 'MB', 'GB', 'TB']\<close> returns at the first
  unit where the value is below 1024 and divides by 1024 otherwise; after the loop the
  value is printed in PB.
\<close>

fun format_bytes_loop :: "string list \<Rightarrow> rat \<Rightarrow> string" where
  "format_bytes_loop [] bytes_value = fmt2 bytes_value @ '' PB''"
| "format_bytes_loop (unit # units) bytes_value =
     (if bytes_value < 1024 then fmt2 bytes_value @ '' '' @ unit
      else format_bytes_loop units (bytes_value / 1024))"

definition format_bytes :: "rat \<Rightarrow> string" where
  "format_bytes bytes_value = format_bytes_loop [''B'', ''KB'', ''MB'', ''GB'', ''TB''] bytes_value"

text \<open>\<^verbatim>\<open>_format_bits_per_second\<close>: the same loop with 1000 and the bit-rate units.\<close>

fun format_bits_loop :: "string list \<Rightarrow> rat \<Rightarrow> string" where
  "format_bits_loop [] bps = fmt2 bps @ '' Tbps''"
| "format_bits_loop (unit # units) bps =
     (if bps < 1000 then fmt2 bps @ '' '' @ unit
      else format_bits_loop units (bps / 1000))"

definition format_bits_per_second :: "rat \<Rightarrow> string" where
  "format_bits_per_second bps = format_bits_loop [''bps'', ''Kbps'', ''Mbps'', ''Gbps''] bps"

section \<open>The process and what surrounds it\<close>

subsection \<open>Records of the report\<close>

text \<open>
  The dicts that the collectors append, one record type per category; a field carries the
  category's letter in front of the dict's key. A label is stored as the backend sent it.
\<close>

record disk_record =
  d_device :: json
  d_usage_percent :: rat
  d_instance :: json
  d_mount_point :: json
  d_size :: string
  d_free :: string
  d_used :: string

record cpu_record =
  c_instance :: json
  c_usage_percent :: rat
  c_core_num :: rat

record mem_record =
  m_instance :: json
  m_total :: string
  m_used :: string
  m_usage_percent :: rat

record net_record =
  n_instance :: json
  n_download :: string
  n_upload :: string

subsection \<open>Mail\<close>

type_synonym bytes = string

datatype path = Path (components: "string list")

text \<open>\<^verbatim>\<open>file_path.name\<close>: the last component.\<close>

definition path_name :: "path \<Rightarrow> string" where
  "path_name p = (if components p = [] then [] else last (components p))"

record email_config =
  smtp_server :: string
  smtp_port :: int
  from_name :: string
  username :: string
  password :: string
  subject :: string
  recipients :: "string list"

text \<open>
  A part of a multipart message: the text body with its subtype, or an attachment
  (\<^verbatim>\<open>application/octet-stream\<close>, payload in base64) with the file name of its
  \<^verbatim>\<open>Content-Disposition\<close> header and the bytes read.
\<close>

datatype part = Text_part string string | Attachment_part string bytes

record message =
  headers :: "(string \<times> string) list"
  parts :: "part list"

text \<open>What the \<^verbatim>\<open>sendmail\<close> call hands to the server: sender, recipients, message.\<close>

type_synonym submission = "string \<times> string list \<times> message"

subsection \<open>Log\<close>

text \<open>One constructor per logging call of the source, with the values its text shows.\<close>

datatype log_entry =
    Query_failed exn
  | Attach_failed path exn
  | Send_failed exn
  | Smtp_failed exn
  | Email_sent
  | Excel_generated path
  | Run_failed exn

subsection \<open>External collaborators\<close>

text \<open>
  An f-string keeps the value it interpolates: the backend sees the literal text and the
  value, so no rendering of the value is assumed.
\<close>

datatype fpart = Text string | Interpolated json

type_synonym fstring = "fpart list"

text \<open>
  An HTTP response as far as the program reads it: the status, and the body as
  \<^verbatim>\<open>response.json()\<close> decodes it (\<open>None\<close> when decoding raises).
\<close>

record response =
  status_code :: int
  json_body :: "json option"

text \<open>
  The calls of one SMTP session in the order of the source, each giving the exception
  it raises, if any: the constructor's connection, \<^verbatim>\<open>starttls\<close>, \<^verbatim>\<open>login\<close>,
  \<^verbatim>\<open>sendmail\<close>, and the QUIT that leaving the \<^verbatim>\<open>with\<close> block sends.
\<close>

record smtp_session =
  connect :: "exn option"
  starttls :: "exn option"
  login :: "exn option"
  sendmail :: "exn option"
  quit :: "exn option"

text \<open>
  The surroundings of one run, fixed while it lasts: the backend behind
  \<^verbatim>\<open>requests.get\<close> (an exception, or a response), \<^verbatim>\<open>MIMEText\<close> (which can reject a
  body), the mail server, the spreadsheet writer and the template engine, and the clock's
  formatted time.
\<close>

record env =
  http_get :: "fstring \<Rightarrow> exn + response"
  mime_text :: "string \<Rightarrow> string \<Rightarrow> exn option"
  smtp :: smtp_session
  excel_writer ::
    "disk_record list \<Rightarrow> cpu_record list \<Rightarrow> mem_record list \<Rightarrow> net_record list \<Rightarrow> exn + bytes"
  render_template ::
    "json list \<Rightarrow> disk_record list \<Rightarrow> cpu_record list \<Rightarrow> mem_record list \<Rightarrow>
     net_record list \<Rightarrow> string \<Rightarrow> exn + string"
  now :: string

subsection \<open>State\<close>

text \<open>
  The five lists of the \<^verbatim>\<open>PrometheusMetrics\<close> object, and what the process has done
  outside itself: the lines logged, the files (reading a path gives its bytes or raises),
  and the submissions the mail server has accepted.
\<close>

record state =
  node_list :: "json list"
  disk_list :: "disk_record list"
  cpu_list :: "cpu_record list"
  mem_list :: "mem_record list"
  net_list :: "net_record list"
  logged :: "log_entry list"
  files :: "path \<Rightarrow> exn + bytes"
  outbox :: "submission list"

definition log_line :: "log_entry \<Rightarrow> state \<Rightarrow> state" where
  "log_line l s = s\<lparr>logged := logged s @ [l]\<rparr>"

text \<open>\<^verbatim>\<open>PrometheusMetrics.__init__\<close>: the five lists start empty.\<close>

definition prometheus_metrics_init :: "state \<Rightarrow> state" where
  "prometheus_metrics_init s =
     s\<lparr>node_list := [], disk_list := [], cpu_list := [], mem_list := [], net_list := []\<rparr>"

section \<open>PrometheusMetrics\<close>

subsection \<open>The query\<close>

definition empty_result :: json where
  "empty_result = JObj [(''data'', JObj [(''result'', JArr [])])]"

text \<open>
  The \<^verbatim>\<open>try\<close> block of \<^verbatim>\<open>_query_prometheus\<close>: \<^verbatim>\<open>requests.get\<close> raises on a
  transport failure, \<^verbatim>\<open>raise_for_status\<close> raises for a status from 400 to 599, and
  \<^verbatim>\<open>response.json()\<close> raises when the body does not decode; otherwise the decoded body
  is the result, whatever its shape.
\<close>

definition query_try :: "env \<Rightarrow> fstring \<Rightarrow> exn + json" where
  "query_try env query =
     (case http_get env query of
        Inl e \<Rightarrow> Inl e
      | Inr response \<Rightarrow>
          if 400 \<le> status_code response \<and> status_code response < 600
          then Inl (LibraryError ''HTTPError'')
          else (case json_body response of
                  None \<Rightarrow> Inl (LibraryError ''JSONDecodeError'')
                | Some j \<Rightarrow> Inr j))"

text \<open>\<^verbatim>\<open>_query_prometheus\<close>: the handler logs the exception and returns the empty result.\<close>

definition query_prometheus :: "env \<Rightarrow> fstring \<Rightarrow> state \<Rightarrow> json \<times> state" where
  "query_prometheus env query s =
     (case query_try env query of
        Inl e \<Rightarrow> (empty_result, log_line (Query_failed e) s)
      | Inr j \<Rightarrow> (j, s))"

text \<open>
  The failures of the request that the handler catches: a transport failure (connection
  error, timeout), a status from 400 to 599, a body that does not decode.
\<close>

definition request_fails :: "env \<Rightarrow> fstring \<Rightarrow> bool" where
  "request_fails env query =
     (case http_get env query of
        Inl e \<Rightarrow> True
      | Inr response \<Rightarrow>
          (400 \<le> status_code response \<and> status_code response < 600) \<or> json_body response = None)"

text \<open>\<^verbatim>\<open>result["data"]["result"]\<close>\<close>

definition result_of :: "json \<Rightarrow> exn + json" where
  "result_of result = and_then (subscript_key result ''data'') (\<lambda>d. subscript_key d ''result'')"

text \<open>\<^verbatim>\<open>x["metric"][label]\<close> and \<^verbatim>\<open>float(x["value"][1])\<close> of a sample.\<close>

definition sample_label :: "json \<Rightarrow> string \<Rightarrow> exn + json" where
  "sample_label x l = and_then (subscript_key x ''metric'') (\<lambda>m. subscript_key m l)"

definition sample_value :: "json \<Rightarrow> exn + rat" where
  "sample_value x = and_then (subscript_key x ''value'') (\<lambda>v. and_then (subscript_1 v) py_float)"

text \<open>A comprehension: the elements in order, stopping at the first exception.\<close>

fun map_exn :: "('a \<Rightarrow> exn + 'b) \<Rightarrow> 'a list \<Rightarrow> exn + 'b list" where
  "map_exn f [] = Inr []"
| "map_exn f (x # xs) = and_then (f x) (\<lambda>y. and_then (map_exn f xs) (\<lambda>ys. Inr (y # ys)))"

text \<open>
  \<^verbatim>\<open>zip(r1["data"]["result"], r2["data"]["result"])\<close>: both arguments are evaluated,
  then both are iterated; the pairs stop with the shorter one.
\<close>

definition zip_results :: "json \<Rightarrow> json \<Rightarrow> exn + (json \<times> json) list" where
  "zip_results r1 r2 =
     and_then (result_of r1) (\<lambda>a. and_then (result_of r2) (\<lambda>b.
     and_then (py_iter a) (\<lambda>xs. and_then (py_iter b) (\<lambda>ys. Inr (zip xs ys)))))"

text \<open>
  A loop whose body builds one record and appends it: an exception in the body leaves
  the records appended so far and ends the loop.
\<close>

fun append_each :: "('a \<Rightarrow> exn + 'r) \<Rightarrow> 'a list \<Rightarrow> 'r list \<Rightarrow> 'r list \<times> exn option" where
  "append_each body [] acc = (acc, None)"
| "append_each body (x # xs) acc =
     (case body x of Inl e \<Rightarrow> (acc, Some e) | Inr r \<Rightarrow> append_each body xs (acc @ [r]))"

subsection \<open>Node discovery\<close>

definition node_query :: fstring where
  \<open>node_query =
     [Text ''node_uname_info{vendor=~"",account=~"",group=~"()",name=~"()",name=~".*.*"} - 0'']\<close>

definition get_node_metrics :: "env \<Rightarrow> state \<Rightarrow> exn option \<times> state" where
  "get_node_metrics env s =
     (let (result, s1) = query_prometheus env node_query s
      in case and_then (and_then (result_of result) py_iter)
                (map_exn (\<lambda>node. sample_label node ''instance'')) of
           Inl e \<Rightarrow> (Some e, s1)
         | Inr nodes \<Rightarrow> (None, s1\<lparr>node_list := nodes\<rparr>))"

subsection \<open>Disk\<close>

definition disk_query_size :: "json \<Rightarrow> fstring" where
  \<open>disk_query_size instance' =
     [Text ''node_filesystem_size_bytes{instance=~"'', Interpolated instance',
      Text ''",fstype=~"ext.*|xfs|nfs",mountpoint !~".*pod.*"}'']\<close>

definition disk_query_free :: "json \<Rightarrow> fstring" where
  \<open>disk_query_free instance' =
     [Text ''node_filesystem_free_bytes{instance=~"'', Interpolated instance',
      Text ''",fstype=~"ext.*|xfs|nfs",mountpoint !~".*pod.*"}'']\<close>

text \<open>The body of the loop of \<^verbatim>\<open>get_disk_metrics\<close>, up to the dict it appends.\<close>

definition disk_entry :: "json \<Rightarrow> json \<Rightarrow> json \<Rightarrow> exn + disk_record" where
  "disk_entry instance' size' free =
     and_then (sample_value size') (\<lambda>size_value.
     and_then (sample_value free) (\<lambda>free_value.
       let used_value = size_value - free_value;
           usage_percent = (if size_value > 0 then used_value / size_value * 100 else 0)
       in and_then (sample_label size' ''device'') (\<lambda>device.
          and_then (sample_label size' ''mountpoint'') (\<lambda>mountpoint.
            Inr \<lparr>d_device = device,
                 d_usage_percent = usage_percent,
                 d_instance = instance',
                 d_mount_point = mountpoint,
                 d_size = format_bytes size_value,
                 d_free = format_bytes free_value,
                 d_used = format_bytes used_value\<rparr>))))"

definition get_disk_metrics :: "env \<Rightarrow> json \<Rightarrow> state \<Rightarrow> exn option \<times> state" where
  "get_disk_metrics env instance' s =
     (let (result_size, s1) = query_prometheus env (disk_query_size instance') s;
          (result_free, s2) = query_prometheus env (disk_query_free instance') s1
      in case zip_results result_size result_free of
           Inl e \<Rightarrow> (Some e, s2)
         | Inr pairs \<Rightarrow>
             (let (l, x) = append_each (\<lambda>(size', free). disk_entry instance' size' free)
                             pairs (disk_list s2)
              in (x, s2\<lparr>disk_list := l\<rparr>)))"

subsection \<open>CPU\<close>

definition cpu_query_usage_percent :: "json \<Rightarrow> fstring" where
  \<open>cpu_query_usage_percent instance' =
     [Text ''(1 - avg(irate(node_cpu_seconds_total{instance=~"'', Interpolated instance',
      Text ''",mode=~"idle"}[3m])) by (instance)) * 100'']\<close>

definition cpu_query_core_num :: "json \<Rightarrow> fstring" where
  \<open>cpu_query_core_num instance' =
     [Text ''count(node_cpu_seconds_total{instance=~"'', Interpolated instance',
      Text ''",mode="system"}) by (instance)'']\<close>

definition cpu_entry :: "json \<Rightarrow> json \<Rightarrow> json \<Rightarrow> exn + cpu_record" where
  "cpu_entry instance' usage_percent core_num =
     and_then (sample_value usage_percent) (\<lambda>usage_value.
     and_then (sample_value core_num) (\<lambda>core_num_value.
       Inr \<lparr>c_instance = instance',
            c_usage_percent = usage_value,
            c_core_num = core_num_value\<rparr>))"

definition get_cpu_metrics :: "env \<Rightarrow> json \<Rightarrow> state \<Rightarrow> exn option \<times> state" where
  "get_cpu_metrics env instance' s =
     (let (result_usage_percent, s1) = query_prometheus env (cpu_query_usage_percent instance') s;
          (result_core_num, s2) = query_prometheus env (cpu_query_core_num instance') s1
      in case zip_results result_usage_percent result_core_num of
           Inl e \<Rightarrow> (Some e, s2)
         | Inr pairs \<Rightarrow>
             (let (l, x) = append_each (\<lambda>(usage_percent, core_num).
                               cpu_entry instance' usage_percent core_num)
                             pairs (cpu_list s2)
              in (x, s2\<lparr>cpu_list := l\<rparr>)))"

subsection \<open>Memory\<close>

definition mem_query_total :: "json \<Rightarrow> fstring" where
  \<open>mem_query_total instance' =
     [Text ''node_memory_MemTotal_bytes{instance=~"'', Interpolated instance', Text ''"}'']\<close>

definition mem_query_avail :: "json \<Rightarrow> fstring" where
  \<open>mem_query_avail instance' =
     [Text ''node_memory_MemAvailable_bytes{instance=~"'', Interpolated instance', Text ''"}'']\<close>

definition mem_entry :: "json \<Rightarrow> json \<Rightarrow> json \<Rightarrow> exn + mem_record" where
  "mem_entry instance' total' avail =
     and_then (sample_value total') (\<lambda>total_value.
     and_then (sample_value avail) (\<lambda>avail_value.
       let used_value = total_value - avail_value;
           usage_percent = (if total_value > 0 then used_value / total_value * 100 else 0)
       in Inr \<lparr>m_instance = instance',
               m_total = format_bytes total_value,
               m_used = format_bytes used_value,
               m_usage_percent = usage_percent\<rparr>))"

definition get_mem_metrics :: "env \<Rightarrow> json \<Rightarrow> state \<Rightarrow> exn option \<times> state" where
  "get_mem_metrics env instance' s =
     (let (result_total, s1) = query_prometheus env (mem_query_total instance') s;
          (result_avail, s2) = query_prometheus env (mem_query_avail instance') s1
      in case zip_results result_total result_avail of
           Inl e \<Rightarrow> (Some e, s2)
         | Inr pairs \<Rightarrow>
             (let (l, x) = append_each (\<lambda>(total', avail). mem_entry instance' total' avail)
                             pairs (mem_list s2)
              in (x, s2\<lparr>mem_list := l\<rparr>)))"

subsection \<open>Network\<close>

definition net_query_rx :: "json \<Rightarrow> fstring" where
  \<open>net_query_rx instance' =
     [Text ''max(irate(node_network_receive_bytes_total{instance=~"'', Interpolated instance',
      Text ''",device=~"eth.*|ens.*"}[3m])*8) by (instance)'']\<close>

definition net_query_tx :: "json \<Rightarrow> fstring" where
  \<open>net_query_tx instance' =
     [Text ''max(irate(node_network_transmit_bytes_total{instance=~"'', Interpolated instance',
      Text ''",device=~"eth.*|ens.*"}[3m])*8) by (instance)'']\<close>

definition net_entry :: "json \<Rightarrow> json \<Rightarrow> json \<Rightarrow> exn + net_record" where
  "net_entry instance' rx tx =
     and_then (sample_value rx) (\<lambda>rx_value.
     and_then (sample_value tx) (\<lambda>tx_value.
       Inr \<lparr>n_instance = instance',
            n_download = format_bits_per_second rx_value,
            n_upload = format_bits_per_second tx_value\<rparr>))"

definition get_net_metrics :: "env \<Rightarrow> json \<Rightarrow> state \<Rightarrow> exn option \<times> state" where
  "get_net_metrics env instance' s =
     (let (result_rx, s1) = query_prometheus env (net_query_rx instance') s;
          (result_tx, s2) = query_prometheus env (net_query_tx instance') s1
      in case zip_results result_rx result_tx of
           Inl e \<Rightarrow> (Some e, s2)
         | Inr pairs \<Rightarrow>
             (let (l, x) = append_each (\<lambda>(rx, tx). net_entry instance' rx tx)
                             pairs (net_list s2)
              in (x, s2\<lparr>net_list := l\<rparr>)))"

subsection \<open>Reports\<close>

text \<open>
  \<^verbatim>\<open>generate_html_report\<close>: the template engine gets the five lists and the time; what it
  raises is raised.
\<close>

definition generate_html_report :: "env \<Rightarrow> state \<Rightarrow> exn + string" where
  "generate_html_report env s =
     render_template env (node_list s) (disk_list s) (cpu_list s) (mem_list s) (net_list s) (now env)"

text \<open>
  \<^verbatim>\<open>generate_excel_report\<close>: the writer turns the four record lists into the workbook
  written at the path, and the success is logged; what the writer raises is raised.
\<close>

definition generate_excel_report :: "env \<Rightarrow> path \<Rightarrow> state \<Rightarrow> exn option \<times> state" where
  "generate_excel_report env file_path s =
     (case excel_writer env (disk_list s) (cpu_list s) (mem_list s) (net_list s) of
        Inl e \<Rightarrow> (Some e, s)
      | Inr workbook \<Rightarrow>
          (None,
           log_line (Excel_generated file_path) (s\<lparr>files := (files s)(file_path := Inr workbook)\<rparr>)))"

section \<open>EmailSender\<close>

fun join :: "string \<Rightarrow> string list \<Rightarrow> string" where
  "join sep [] = []"
| "join sep [x] = x"
| "join sep (x # y # ys) = x @ sep @ join sep (y # ys)"

text \<open>\<^verbatim>\<open>_create_message\<close>: the three headers and the body part; \<^verbatim>\<open>MIMEText\<close> can raise.\<close>

definition create_message :: "env \<Rightarrow> email_config \<Rightarrow> string \<Rightarrow> string \<Rightarrow> bool \<Rightarrow> exn + message" where
  "create_message env config subject' body html =
     (let content_type = (if html then ''html'' else ''plain'')
      in case mime_text env body content_type of
           Some e \<Rightarrow> Inl e
         | None \<Rightarrow>
             Inr \<lparr>headers =
                    [(''From'', from_name config @ '' <'' @ username config @ ''>''),
                     (''To'', join '', '' (recipients config)),
                     (''Subject'', subject')],
                  parts = [Text_part content_type body]\<rparr>)"

text \<open>
  The loop of \<^verbatim>\<open>_add_attachments\<close>: whatever reading and attaching a file raises is
  caught and logged inside the loop, and the loop goes on with the next path. The part
  is attached last, so a file that fails leaves the message as it was.
\<close>

fun attach_each :: "path list \<Rightarrow> message \<Rightarrow> state \<Rightarrow> message \<times> state" where
  "attach_each [] m s = (m, s)"
| "attach_each (file_path # rest) m s =
     (case files s file_path of
        Inl e \<Rightarrow> attach_each rest m (log_line (Attach_failed file_path e) s)
      | Inr payload \<Rightarrow>
          attach_each rest (m\<lparr>parts := parts m @ [Attachment_part (path_name file_path) payload]\<rparr>) s)"

text \<open>\<^verbatim>\<open>_add_attachments\<close>: nothing to do for \<^verbatim>\<open>None\<close> and for the empty list.\<close>

definition add_attachments :: "message \<Rightarrow> path list option \<Rightarrow> state \<Rightarrow> message \<times> state" where
  "add_attachments m attachments s =
     (case attachments of
        None \<Rightarrow> (m, s)
      | Some [] \<Rightarrow> (m, s)
      | Some ps \<Rightarrow> attach_each ps m s)"

text \<open>
  \<^verbatim>\<open>_send_message\<close>. A failed connection raises before the \<^verbatim>\<open>with\<close> block is
  entered. Inside the block the calls run until one raises; an accepted \<^verbatim>\<open>sendmail\<close>
  puts the submission in the outbox. Leaving the block sends QUIT, on an exception too,
  and an exception of QUIT replaces the one of the block. Whatever is raised is logged
  and answered with \<^verbatim>\<open>False\<close>.
\<close>

definition send_message :: "env \<Rightarrow> email_config \<Rightarrow> message \<Rightarrow> state \<Rightarrow> bool \<times> state" where
  "send_message env config m s =
     (case connect (smtp env) of
        Some e \<Rightarrow> (False, log_line (Smtp_failed e) s)
      | None \<Rightarrow>
          (let (block, s1) =
                 (case starttls (smtp env) of
                    Some e \<Rightarrow> (Some e, s)
                  | None \<Rightarrow>
                      (case login (smtp env) of
                         Some e \<Rightarrow> (Some e, s)
                       | None \<Rightarrow>
                           (case sendmail (smtp env) of
                              Some e \<Rightarrow> (Some e, s)
                            | None \<Rightarrow>
                                (None,
                                 s\<lparr>outbox := outbox s @ [(username config, recipients config, m)]\<rparr>))));
               raised = (case quit (smtp env) of Some e \<Rightarrow> Some e | None \<Rightarrow> block)
           in case raised of
                Some e \<Rightarrow> (False, log_line (Smtp_failed e) s1)
              | None \<Rightarrow> (True, log_line Email_sent s1)))"

text \<open>
  \<^verbatim>\<open>send\<close>: its own handler catches what \<^verbatim>\<open>_create_message\<close> raises; the two other
  steps handle their exceptions themselves.
\<close>

definition send ::
  "env \<Rightarrow> email_config \<Rightarrow> string \<Rightarrow> string \<Rightarrow> bool \<Rightarrow> path list option \<Rightarrow> state \<Rightarrow> bool \<times> state" where
  "send env config subject' body html attachments s =
     (case create_message env config subject' body html of
        Inl e \<Rightarrow> (False, log_line (Send_failed e) s)
      | Inr m \<Rightarrow>
          (let (m', s1) = add_attachments m attachments s
           in send_message env config m' s1))"

section \<open>PrometheusNotice\<close>

text \<open>Sequencing of steps that can raise: the first exception ends the sequence.\<close>

definition then_do :: "exn option \<times> state \<Rightarrow> (state \<Rightarrow> exn option \<times> state) \<Rightarrow> exn option \<times> state" where
  "then_do r f = (case fst r of Some e \<Rightarrow> (Some e, snd r) | None \<Rightarrow> f (snd r))"

text \<open>The loop of \<^verbatim>\<open>run\<close> over the node list: four collectors per node, in order.\<close>

fun collect_nodes :: "env \<Rightarrow> json list \<Rightarrow> state \<Rightarrow> exn option \<times> state" where
  "collect_nodes env [] s = (None, s)"
| "collect_nodes env (node # nodes) s =
     then_do (get_disk_metrics env node s) (\<lambda>s1.
     then_do (get_cpu_metrics env node s1) (\<lambda>s2.
     then_do (get_mem_metrics env node s2) (\<lambda>s3.
     then_do (get_net_metrics env node s3) (\<lambda>s4.
       collect_nodes env nodes s4))))"

definition excel_report_path :: path where
  "excel_report_path = Path [''report.xlsx'']"

text \<open>
  The statements of the \<^verbatim>\<open>try\<close> block of \<^verbatim>\<open>run\<close> that come before the call of
  \<^verbatim>\<open>send\<close>: discovery, collection, spreadsheet, HTML. The first exception ends them;
  otherwise they yield the HTML report.
\<close>

definition before_send :: "env \<Rightarrow> state \<Rightarrow> (exn + string) \<times> state" where
  "before_send env s =
     (case get_node_metrics env s of
        (Some e, s1) \<Rightarrow> (Inl e, s1)
      | (None, s1) \<Rightarrow>
          (case collect_nodes env (node_list s1) s1 of
             (Some e, s2) \<Rightarrow> (Inl e, s2)
           | (None, s2) \<Rightarrow>
               (case generate_excel_report env excel_report_path s2 of
                  (Some e, s3) \<Rightarrow> (Inl e, s3)
                | (None, s3) \<Rightarrow> (generate_html_report env s3, s3))))"

text \<open>
  \<^verbatim>\<open>run\<close>: the handler logs an exception of the block and nothing is raised; without an
  exception the report is sent, and the boolean that \<^verbatim>\<open>send\<close> returns is dropped.
\<close>

definition run :: "env \<Rightarrow> email_config \<Rightarrow> state \<Rightarrow> state" where
  "run env config s =
     (case before_send env s of
        (Inl e, s') \<Rightarrow> log_line (Run_failed e) s'
      | (Inr html_report, s3) \<Rightarrow>
          snd (send env config (subject config) html_report True (Some [excel_report_path]) s3))"

section \<open>Scenarios\<close>

text \<open>Concrete surroundings and responses, for evaluating the program.\<close>

definition ok_response :: "json \<Rightarrow> response" where
  "ok_response j = \<lparr>status_code = 200, json_body = Some j\<rparr>"

definition result_body :: "json list \<Rightarrow> json" where
  "result_body samples = JObj [(''data'', JObj [(''result'', JArr samples)])]"

definition sample :: "(string \<times> json) list \<Rightarrow> string \<Rightarrow> json" where
  "sample labels v = JObj [(''metric'', JObj labels), (''value'', JArr [JNum 1731299460, JStr v])]"

definition smtp_ok :: smtp_session where
  "smtp_ok = \<lparr>connect = None, starttls = None, login = None, sendmail = None, quit = None\<rparr>"

text \<open>Surroundings in which everything but the backend works.\<close>

definition env_with :: "(fstring \<Rightarrow> exn + response) \<Rightarrow> env" where
  "env_with backend =
     \<lparr>http_get = backend,
      mime_text = (\<lambda>body subtype. None),
      smtp = smtp_ok,
      excel_writer = (\<lambda>disks cpus mems nets. Inr ''workbook''),
      render_template = (\<lambda>nodes disks cpus mems nets timestamp. Inr ''<html></html>''),
      now = ''2024-11-11 12:31:00''\<rparr>"

text \<open>A process that has just constructed its objects: no file exists yet.\<close>

definition fresh :: state where
  "fresh =
     \<lparr>node_list = [], disk_list = [], cpu_list = [], mem_list = [], net_list = [],
      logged = [], files = (\<lambda>p. Inl (LibraryError ''FileNotFoundError'')), outbox = []\<rparr>"

text \<open>
  The records that a collector appends for a node: what it leaves in the list of a fresh
  process.
\<close>

definition disk_records :: "env \<Rightarrow> json \<Rightarrow> disk_record list" where
  "disk_records env instance' = disk_list (snd (get_disk_metrics env instance' fresh))"

definition cpu_records :: "env \<Rightarrow> json \<Rightarrow> cpu_record list" where
  "cpu_records env instance' = cpu_list (snd (get_cpu_metrics env instance' fresh))"

definition mem_records :: "env \<Rightarrow> json \<Rightarrow> mem_record list" where
  "mem_records env instance' = mem_list (snd (get_mem_metrics env instance' fresh))"

definition net_records :: "env \<Rightarrow> json \<Rightarrow> net_record list" where
  "net_records env instance' = net_list (snd (get_net_metrics env instance' fresh))"

definition example_config :: email_config where
  "example_config =
     \<lparr>smtp_server = ''smtp.example.org'', smtp_port = 587, from_name = ''Monitor'',
      username = ''monitor@example.org'', password = ''secret'',
      subject = ''Daily report'', recipients = [''ops@example.org'', ''dev@example.org'']\<rparr>"


definition sample_node :: "string \<Rightarrow> json" where
  "sample_node v = sample [(''instance'', JStr ''A'')] v"

text \<open>A backend that answers every query with status 200 and the JSON object \<^verbatim>\<open>{}\<close>.\<close>

definition backend_empty_object :: "fstring \<Rightarrow> exn + response" where
  "backend_empty_object query = Inr (ok_response (JObj []))"

text \<open>A backend that is down, and one that answers every query with status 503.\<close>

definition backend_down :: "fstring \<Rightarrow> exn + response" where
  "backend_down query = Inl (LibraryError ''ConnectionError'')"

definition backend_503 :: "fstring \<Rightarrow> exn + response" where
  "backend_503 query = Inr \<lparr>status_code = 503, json_body = None\<rparr>"

text \<open>A backend that answers every query with status 300 and one sample of node \<^verbatim>\<open>A\<close>.\<close>

definition backend_300 :: "fstring \<Rightarrow> exn + response" where
  "backend_300 query = Inr \<lparr>status_code = 300, json_body = Some (result_body [sample_node ''1''])\<rparr>"

text \<open>
  Discovery finds node \<^verbatim>\<open>A\<close>, which has one filesystem of 100 GiB, of which 50 GiB are
  free (the other queries find no sample).
\<close>

definition backend_half_full :: "fstring \<Rightarrow> exn + response" where
  "backend_half_full query =
     (if query = node_query
      then Inr (ok_response (result_body [sample_node ''1'']))
      else if query = disk_query_size (JStr ''A'')
      then Inr (ok_response (result_body
             [sample [(''device'', JStr ''/dev/sda1''), (''mountpoint'', JStr ''/'')] ''107374182400'']))
      else if query = disk_query_free (JStr ''A'')
      then Inr (ok_response (result_body
             [sample [(''device'', JStr ''/dev/sda1''), (''mountpoint'', JStr ''/'')] ''53687091200'']))
      else Inr (ok_response (result_body [])))"

text \<open>
  Discovery finds node \<^verbatim>\<open>A\<close>, and every other query is answered with status 200 and
  the JSON object \<^verbatim>\<open>{}\<close>.
\<close>

definition backend_bad_disk :: "fstring \<Rightarrow> exn + response" where
  "backend_bad_disk query =
     (if query = node_query
      then Inr (ok_response (result_body [sample_node ''1'']))
      else Inr (ok_response (JObj [])))"





text \<open>A process in which one file can be read.\<close>

definition one_file :: state where
  "one_file = fresh\<lparr>files := (files fresh)(Path [''logs'', ''a.txt''] := Inr ''data'')\<rparr>"

text \<open>Surroundings in which the spreadsheet writer raises, and in which the template does.\<close>

definition env_excel_fails :: env where
  "env_excel_fails =
     (env_with backend_half_full)
       \<lparr>excel_writer := (\<lambda>disks cpus mems nets. Inl (LibraryError ''PermissionError''))\<rparr>"

definition env_template_fails :: env where
  "env_template_fails =
     (env_with backend_half_full)
       \<lparr>render_template :=
          (\<lambda>nodes disks cpus mems nets timestamp. Inl (LibraryError ''TemplateNotFound''))\<rparr>"

text \<open>The log entries that \<^verbatim>\<open>EmailSender\<close> writes.\<close>

fun is_mail_entry :: "log_entry \<Rightarrow> bool" where
  "is_mail_entry (Attach_failed p e) = True"
| "is_mail_entry (Send_failed e) = True"
| "is_mail_entry (Smtp_failed e) = True"
| "is_mail_entry Email_sent = True"
| "is_mail_entry _ = False"

text \<open>
  A step from \<open>s\<close> to \<open>s'\<close> in which no mail is handled: the outbox is the same, and the
  log has grown by entries that are not of \<^verbatim>\<open>EmailSender\<close>.
\<close>

definition no_mail_step :: "state \<Rightarrow> state \<Rightarrow> bool" where
  "no_mail_step s s' =
     (outbox s' = outbox s \<and>
      (\<exists>ls. logged s' = logged s @ ls \<and> filter is_mail_entry ls = []))"

section \<open>Properties\<close>

subsection \<open>Sequencing and the query\<close>

lemma and_then_simps [simp]:
  "and_then (Inl e) f = Inl e"
  "and_then (Inr x) f = f x"
  by (simp_all add: and_then_def)

lemma and_then_Inr_iff:
  "and_then m f = Inr y \<longleftrightarrow> (\<exists>x. m = Inr x \<and> f x = Inr y)"
  by (cases m) simp_all

lemma log_line_fields [simp]:
  "node_list (log_line l s) = node_list s"
  "disk_list (log_line l s) = disk_list s"
  "cpu_list (log_line l s) = cpu_list s"
  "mem_list (log_line l s) = mem_list s"
  "net_list (log_line l s) = net_list s"
  "files (log_line l s) = files s"
  "outbox (log_line l s) = outbox s"
  "logged (log_line l s) = logged s @ [l]"
  by (simp_all add: log_line_def)

lemma request_fails_iff: "request_fails env q \<longleftrightarrow> (\<exists>e. query_try env q = Inl e)"
  by (auto simp: request_fails_def query_try_def split: sum.splits option.splits)

lemma fst_query_prometheus:
  "fst (query_prometheus env q s) = (case query_try env q of Inl e \<Rightarrow> empty_result | Inr j \<Rightarrow> j)"
  by (simp add: query_prometheus_def split: sum.splits)

lemma fst_query_failed: "request_fails env q \<Longrightarrow> fst (query_prometheus env q s) = empty_result"
  by (auto simp: request_fails_iff fst_query_prometheus)

lemma snd_query_fields [simp]:
  "node_list (snd (query_prometheus env q s)) = node_list s"
  "disk_list (snd (query_prometheus env q s)) = disk_list s"
  "cpu_list (snd (query_prometheus env q s)) = cpu_list s"
  "mem_list (snd (query_prometheus env q s)) = mem_list s"
  "net_list (snd (query_prometheus env q s)) = net_list s"
  "files (snd (query_prometheus env q s)) = files s"
  "outbox (snd (query_prometheus env q s)) = outbox s"
  by (simp_all add: query_prometheus_def split: sum.splits)

lemma result_of_empty [simp]: "result_of empty_result = Inr (JArr [])"
  by (simp add: result_of_def empty_result_def)

lemma zip_results_empty_left: "zip_results empty_result r = Inr ps \<Longrightarrow> ps = []"
  by (auto simp: zip_results_def and_then_Inr_iff)

lemma zip_results_empty_right: "zip_results r empty_result = Inr ps \<Longrightarrow> ps = []"
  by (auto simp: zip_results_def and_then_Inr_iff)

lemma zip_results_empty_both [simp]: "zip_results empty_result empty_result = Inr []"
  by (simp add: zip_results_def)

subsection \<open>The collectors, unfolded\<close>

lemma get_disk_metrics_eq:
  "get_disk_metrics env i s =
     (let s2 = snd (query_prometheus env (disk_query_free i) (snd (query_prometheus env (disk_query_size i) s)))
      in case zip_results (fst (query_prometheus env (disk_query_size i) s))
                (fst (query_prometheus env (disk_query_free i) (snd (query_prometheus env (disk_query_size i) s)))) of
           Inl e \<Rightarrow> (Some e, s2)
         | Inr pairs \<Rightarrow>
             (snd (append_each (\<lambda>(a, b). disk_entry i a b) pairs (disk_list s)),
              s2\<lparr>disk_list := fst (append_each (\<lambda>(a, b). disk_entry i a b) pairs (disk_list s))\<rparr>))"
  by (simp add: get_disk_metrics_def Let_def case_prod_beta split: sum.splits)

lemma get_cpu_metrics_eq:
  "get_cpu_metrics env i s =
     (let s2 = snd (query_prometheus env (cpu_query_core_num i) (snd (query_prometheus env (cpu_query_usage_percent i) s)))
      in case zip_results (fst (query_prometheus env (cpu_query_usage_percent i) s))
                (fst (query_prometheus env (cpu_query_core_num i) (snd (query_prometheus env (cpu_query_usage_percent i) s)))) of
           Inl e \<Rightarrow> (Some e, s2)
         | Inr pairs \<Rightarrow>
             (snd (append_each (\<lambda>(a, b). cpu_entry i a b) pairs (cpu_list s)),
              s2\<lparr>cpu_list := fst (append_each (\<lambda>(a, b). cpu_entry i a b) pairs (cpu_list s))\<rparr>))"
  by (simp add: get_cpu_metrics_def Let_def case_prod_beta split: sum.splits)

lemma get_mem_metrics_eq:
  "get_mem_metrics env i s =
     (let s2 = snd (query_prometheus env (mem_query_avail i) (snd (query_prometheus env (mem_query_total i) s)))
      in case zip_results (fst (query_prometheus env (mem_query_total i) s))
                (fst (query_prometheus env (mem_query_avail i) (snd (query_prometheus env (mem_query_total i) s)))) of
           Inl e \<Rightarrow> (Some e, s2)
         | Inr pairs \<Rightarrow>
             (snd (append_each (\<lambda>(a, b). mem_entry i a b) pairs (mem_list s)),
              s2\<lparr>mem_list := fst (append_each (\<lambda>(a, b). mem_entry i a b) pairs (mem_list s))\<rparr>))"
  by (simp add: get_mem_metrics_def Let_def case_prod_beta split: sum.splits)

lemma get_net_metrics_eq:
  "get_net_metrics env i s =
     (let s2 = snd (query_prometheus env (net_query_tx i) (snd (query_prometheus env (net_query_rx i) s)))
      in case zip_results (fst (query_prometheus env (net_query_rx i) s))
                (fst (query_prometheus env (net_query_tx i) (snd (query_prometheus env (net_query_rx i) s)))) of
           Inl e \<Rightarrow> (Some e, s2)
         | Inr pairs \<Rightarrow>
             (snd (append_each (\<lambda>(a, b). net_entry i a b) pairs (net_list s)),
              s2\<lparr>net_list := fst (append_each (\<lambda>(a, b). net_entry i a b) pairs (net_list s))\<rparr>))"
  by (simp add: get_net_metrics_def Let_def case_prod_beta split: sum.splits)

lemma append_each_acc:
  "append_each body xs acc = (acc @ fst (append_each body xs []), snd (append_each body xs []))"
proof (induction xs arbitrary: acc)
  case Nil
  show ?case by simp
next
  case (Cons x xs)
  show ?case
  proof (cases "body x")
    case (Inl e)
    then show ?thesis by simp
  next
    case (Inr r)
    have a: "append_each body xs (acc @ [r]) =
        ((acc @ [r]) @ fst (append_each body xs []), snd (append_each body xs []))"
      by (rule Cons.IH)
    have b: "append_each body xs [r] = ([r] @ fst (append_each body xs []), snd (append_each body xs []))"
      by (rule Cons.IH)
    show ?thesis using Inr by (simp add: a b)
  qed
qed

lemma fst_append_each: "fst (append_each body xs acc) = acc @ fst (append_each body xs [])"
  using append_each_acc[of body xs acc] by simp

lemma snd_append_each: "snd (append_each body xs acc) = snd (append_each body xs [])"
  using append_each_acc[of body xs acc] by simp

lemma init_fields [simp]:
  "node_list (prometheus_metrics_init s) = []"
  "disk_list (prometheus_metrics_init s) = []"
  "cpu_list (prometheus_metrics_init s) = []"
  "mem_list (prometheus_metrics_init s) = []"
  "net_list (prometheus_metrics_init s) = []"
  "logged (prometheus_metrics_init s) = logged s"
  "files (prometheus_metrics_init s) = files s"
  "outbox (prometheus_metrics_init s) = outbox s"
  by (simp_all add: prometheus_metrics_init_def)

subsection \<open>What a collector leaves alone\<close>

lemma get_disk_metrics_frame:
  "node_list (snd (get_disk_metrics env i s)) = node_list s \<and>
   cpu_list (snd (get_disk_metrics env i s)) = cpu_list s \<and>
   mem_list (snd (get_disk_metrics env i s)) = mem_list s \<and>
   net_list (snd (get_disk_metrics env i s)) = net_list s \<and>
   files (snd (get_disk_metrics env i s)) = files s \<and>
   outbox (snd (get_disk_metrics env i s)) = outbox s"
  by (simp add: get_disk_metrics_eq Let_def split: sum.splits)

lemma get_cpu_metrics_frame:
  "node_list (snd (get_cpu_metrics env i s)) = node_list s \<and>
   disk_list (snd (get_cpu_metrics env i s)) = disk_list s \<and>
   mem_list (snd (get_cpu_metrics env i s)) = mem_list s \<and>
   net_list (snd (get_cpu_metrics env i s)) = net_list s \<and>
   files (snd (get_cpu_metrics env i s)) = files s \<and>
   outbox (snd (get_cpu_metrics env i s)) = outbox s"
  by (simp add: get_cpu_metrics_eq Let_def split: sum.splits)

lemma get_mem_metrics_frame:
  "node_list (snd (get_mem_metrics env i s)) = node_list s \<and>
   disk_list (snd (get_mem_metrics env i s)) = disk_list s \<and>
   cpu_list (snd (get_mem_metrics env i s)) = cpu_list s \<and>
   net_list (snd (get_mem_metrics env i s)) = net_list s \<and>
   files (snd (get_mem_metrics env i s)) = files s \<and>
   outbox (snd (get_mem_metrics env i s)) = outbox s"
  by (simp add: get_mem_metrics_eq Let_def split: sum.splits)

lemma get_net_metrics_frame:
  "node_list (snd (get_net_metrics env i s)) = node_list s \<and>
   disk_list (snd (get_net_metrics env i s)) = disk_list s \<and>
   cpu_list (snd (get_net_metrics env i s)) = cpu_list s \<and>
   mem_list (snd (get_net_metrics env i s)) = mem_list s \<and>
   files (snd (get_net_metrics env i s)) = files s \<and>
   outbox (snd (get_net_metrics env i s)) = outbox s"
  by (simp add: get_net_metrics_eq Let_def split: sum.splits)

subsection \<open>What a collector appends\<close>

lemma get_disk_metrics_appends:
  "disk_list (snd (get_disk_metrics env i s)) = disk_list s @ disk_records env i"
  by (simp add: disk_records_def get_disk_metrics_eq Let_def fst_query_prometheus fresh_def
      fst_append_each[of _ _ "disk_list s"] split: sum.splits)

lemma get_cpu_metrics_appends:
  "cpu_list (snd (get_cpu_metrics env i s)) = cpu_list s @ cpu_records env i"
  by (simp add: cpu_records_def get_cpu_metrics_eq Let_def fst_query_prometheus fresh_def
      fst_append_each[of _ _ "cpu_list s"] split: sum.splits)

lemma get_mem_metrics_appends:
  "mem_list (snd (get_mem_metrics env i s)) = mem_list s @ mem_records env i"
  by (simp add: mem_records_def get_mem_metrics_eq Let_def fst_query_prometheus fresh_def
      fst_append_each[of _ _ "mem_list s"] split: sum.splits)

lemma get_net_metrics_appends:
  "net_list (snd (get_net_metrics env i s)) = net_list s @ net_records env i"
  by (simp add: net_records_def get_net_metrics_eq Let_def fst_query_prometheus fresh_def
      fst_append_each[of _ _ "net_list s"] split: sum.splits)

subsection \<open>The loop over the nodes\<close>

lemma then_do_simps [simp]:
  "then_do (Some e, s) f = (Some e, s)"
  "then_do (None, s) f = f s"
  by (simp_all add: then_do_def)

lemma then_do_None:
  "fst (then_do r f) = None \<longleftrightarrow> fst r = None \<and> fst (f (snd r)) = None"
  by (cases r; cases "fst r") auto

lemma snd_then_do_None:
  "fst r = None \<Longrightarrow> snd (then_do r f) = snd (f (snd r))"
  by (cases r) auto

lemma collect_nodes_Cons_None:
  assumes "fst (collect_nodes env (n # ns) s) = None"
  shows "snd (collect_nodes env (n # ns) s) =
           snd (collect_nodes env ns
             (snd (get_net_metrics env n (snd (get_mem_metrics env n
               (snd (get_cpu_metrics env n (snd (get_disk_metrics env n s)))))))))
         \<and> fst (collect_nodes env ns
             (snd (get_net_metrics env n (snd (get_mem_metrics env n
               (snd (get_cpu_metrics env n (snd (get_disk_metrics env n s))))))))) = None"
  using assms by (simp add: then_do_None snd_then_do_None)

lemma collect_nodes_lists:
  "fst (collect_nodes env ns s) = None \<Longrightarrow>
   disk_list (snd (collect_nodes env ns s)) = disk_list s @ concat (map (disk_records env) ns) \<and>
   cpu_list (snd (collect_nodes env ns s)) = cpu_list s @ concat (map (cpu_records env) ns) \<and>
   mem_list (snd (collect_nodes env ns s)) = mem_list s @ concat (map (mem_records env) ns) \<and>
   net_list (snd (collect_nodes env ns s)) = net_list s @ concat (map (net_records env) ns)"
proof (induction ns arbitrary: s)
  case Nil
  then show ?case by simp
next
  case (Cons n ns)
  let ?s4 = "snd (get_net_metrics env n (snd (get_mem_metrics env n
               (snd (get_cpu_metrics env n (snd (get_disk_metrics env n s)))))))"
  from collect_nodes_Cons_None[OF Cons.prems]
  have eq: "snd (collect_nodes env (n # ns) s) = snd (collect_nodes env ns ?s4)"
    and ok: "fst (collect_nodes env ns ?s4) = None" by simp_all
  have d: "disk_list ?s4 = disk_list s @ disk_records env n"
    by (simp add: get_net_metrics_frame get_mem_metrics_frame get_cpu_metrics_frame
        get_disk_metrics_appends)
  have c: "cpu_list ?s4 = cpu_list s @ cpu_records env n"
    by (simp add: get_net_metrics_frame get_mem_metrics_frame get_cpu_metrics_appends
        get_disk_metrics_frame)
  have m: "mem_list ?s4 = mem_list s @ mem_records env n"
    by (simp add: get_net_metrics_frame get_mem_metrics_appends get_cpu_metrics_frame
        get_disk_metrics_frame)
  have t: "net_list ?s4 = net_list s @ net_records env n"
    by (simp add: get_net_metrics_appends get_mem_metrics_frame get_cpu_metrics_frame
        get_disk_metrics_frame)
  from Cons.IH[OF ok] show ?case unfolding eq by (simp add: d c m t)
qed

lemma collect_nodes_frame:
  "node_list (snd (collect_nodes env ns s)) = node_list s \<and>
   files (snd (collect_nodes env ns s)) = files s \<and>
   outbox (snd (collect_nodes env ns s)) = outbox s"
proof (induction ns arbitrary: s)
  case Nil
  show ?case by simp
next
  case (Cons n ns)
  show ?case
    by (simp add: then_do_def Cons.IH get_net_metrics_frame get_mem_metrics_frame
        get_cpu_metrics_frame get_disk_metrics_frame split: option.splits)
qed

subsection \<open>Failure of a query\<close>

lemma get_node_metrics_eq:
  "get_node_metrics env s =
     (case and_then (and_then (result_of (fst (query_prometheus env node_query s))) py_iter)
             (map_exn (\<lambda>node. sample_label node ''instance'')) of
        Inl e \<Rightarrow> (Some e, snd (query_prometheus env node_query s))
      | Inr nodes \<Rightarrow> (None, snd (query_prometheus env node_query s)\<lparr>node_list := nodes\<rparr>))"
  by (simp add: get_node_metrics_def case_prod_beta)

lemma get_node_metrics_frame:
  "disk_list (snd (get_node_metrics env s)) = disk_list s \<and>
   cpu_list (snd (get_node_metrics env s)) = cpu_list s \<and>
   mem_list (snd (get_node_metrics env s)) = mem_list s \<and>
   net_list (snd (get_node_metrics env s)) = net_list s \<and>
   files (snd (get_node_metrics env s)) = files s \<and>
   outbox (snd (get_node_metrics env s)) = outbox s"
  by (simp add: get_node_metrics_eq split: sum.splits)

lemma get_node_metrics_replaces:
  "fst (get_node_metrics env s) = None \<Longrightarrow>
   node_list (snd (get_node_metrics env s)) = node_list (snd (get_node_metrics env s'))"
  by (simp add: get_node_metrics_eq fst_query_prometheus split: sum.splits)

lemma get_node_metrics_raises:
  "fst (get_node_metrics env s) = Some e \<Longrightarrow>
   node_list (snd (get_node_metrics env s)) = node_list s"
  by (simp add: get_node_metrics_eq split: sum.splits)

lemma get_node_metrics_failed:
  "request_fails env node_query \<Longrightarrow>
   fst (get_node_metrics env s) = None \<and> node_list (snd (get_node_metrics env s)) = []"
  by (simp add: get_node_metrics_eq fst_query_failed)

lemma disk_failed_unchanged:
  "request_fails env (disk_query_size i) \<or> request_fails env (disk_query_free i) \<Longrightarrow>
   disk_list (snd (get_disk_metrics env i s)) = disk_list s"
  by (auto simp: get_disk_metrics_eq Let_def fst_query_failed
      dest!: zip_results_empty_left zip_results_empty_right split: sum.splits)

lemma cpu_failed_unchanged:
  "request_fails env (cpu_query_usage_percent i) \<or> request_fails env (cpu_query_core_num i) \<Longrightarrow>
   cpu_list (snd (get_cpu_metrics env i s)) = cpu_list s"
  by (auto simp: get_cpu_metrics_eq Let_def fst_query_failed
      dest!: zip_results_empty_left zip_results_empty_right split: sum.splits)

lemma mem_failed_unchanged:
  "request_fails env (mem_query_total i) \<or> request_fails env (mem_query_avail i) \<Longrightarrow>
   mem_list (snd (get_mem_metrics env i s)) = mem_list s"
  by (auto simp: get_mem_metrics_eq Let_def fst_query_failed
      dest!: zip_results_empty_left zip_results_empty_right split: sum.splits)

lemma net_failed_unchanged:
  "request_fails env (net_query_rx i) \<or> request_fails env (net_query_tx i) \<Longrightarrow>
   net_list (snd (get_net_metrics env i s)) = net_list s"
  by (auto simp: get_net_metrics_eq Let_def fst_query_failed
      dest!: zip_results_empty_left zip_results_empty_right split: sum.splits)

lemma both_failed_returns:
  "request_fails env (disk_query_size i) \<and> request_fails env (disk_query_free i) \<Longrightarrow>
     fst (get_disk_metrics env i s) = None"
  "request_fails env (cpu_query_usage_percent i) \<and> request_fails env (cpu_query_core_num i) \<Longrightarrow>
     fst (get_cpu_metrics env i s) = None"
  "request_fails env (mem_query_total i) \<and> request_fails env (mem_query_avail i) \<Longrightarrow>
     fst (get_mem_metrics env i s) = None"
  "request_fails env (net_query_rx i) \<and> request_fails env (net_query_tx i) \<Longrightarrow>
     fst (get_net_metrics env i s) = None"
  by (simp_all add: get_disk_metrics_eq get_cpu_metrics_eq get_mem_metrics_eq get_net_metrics_eq
      Let_def fst_query_failed)

lemma query_failed_result:
  "request_fails env q \<Longrightarrow>
   fst (query_prometheus env q s) = empty_result \<and>
   (\<exists>e. snd (query_prometheus env q s) = log_line (Query_failed e) s)"
  by (auto simp: request_fails_iff query_prometheus_def)

lemma query_decoded_result:
  "\<not> request_fails env q \<Longrightarrow>
   (\<exists>r. http_get env q = Inr r \<and> json_body r = Some (fst (query_prometheus env q s))) \<and>
   snd (query_prometheus env q s) = s"
  by (auto simp: request_fails_def query_prometheus_def query_try_def split: sum.splits option.splits)

text \<open>
  Claim C1, as the code has it. When the request fails (transport failure, status from
  400 to 599, or a body that does not decode), the query returns the empty result
  \<^verbatim>\<open>{"data": {"result": []}}\<close>, logs the failure and raises nothing; node discovery
  then finds no node, and a collector one of whose two queries fails appends no record
  (and returns normally when both fail). A body that decodes is returned as decoded,
  whatever its shape, and nothing is logged.
\<close>

theorem query_prometheus_fail_soft:
  "(request_fails env q \<longrightarrow>
      fst (query_prometheus env q s) = empty_result \<and>
      (\<exists>e. snd (query_prometheus env q s) = log_line (Query_failed e) s)) \<and>
   (\<not> request_fails env q \<longrightarrow>
      (\<exists>r. http_get env q = Inr r \<and> json_body r = Some (fst (query_prometheus env q s))) \<and>
      snd (query_prometheus env q s) = s) \<and>
   (request_fails env node_query \<longrightarrow>
      fst (get_node_metrics env s) = None \<and> node_list (snd (get_node_metrics env s)) = []) \<and>
   (request_fails env (disk_query_size i) \<or> request_fails env (disk_query_free i) \<longrightarrow>
      disk_list (snd (get_disk_metrics env i s)) = disk_list s) \<and>
   (request_fails env (cpu_query_usage_percent i) \<or> request_fails env (cpu_query_core_num i) \<longrightarrow>
      cpu_list (snd (get_cpu_metrics env i s)) = cpu_list s) \<and>
   (request_fails env (mem_query_total i) \<or> request_fails env (mem_query_avail i) \<longrightarrow>
      mem_list (snd (get_mem_metrics env i s)) = mem_list s) \<and>
   (request_fails env (net_query_rx i) \<or> request_fails env (net_query_tx i) \<longrightarrow>
      net_list (snd (get_net_metrics env i s)) = net_list s) \<and>
   (request_fails env (disk_query_size i) \<and> request_fails env (disk_query_free i) \<longrightarrow>
      fst (get_disk_metrics env i s) = None) \<and>
   (request_fails env (cpu_query_usage_percent i) \<and> request_fails env (cpu_query_core_num i) \<longrightarrow>
      fst (get_cpu_metrics env i s) = None) \<and>
   (request_fails env (mem_query_total i) \<and> request_fails env (mem_query_avail i) \<longrightarrow>
      fst (get_mem_metrics env i s) = None) \<and>
   (request_fails env (net_query_rx i) \<and> request_fails env (net_query_tx i) \<longrightarrow>
      fst (get_net_metrics env i s) = None)"
  using query_failed_result[of env q s] query_decoded_result[of env q s]
    get_node_metrics_failed[of env s] disk_failed_unchanged[of env i s]
    cpu_failed_unchanged[of env i s] mem_failed_unchanged[of env i s]
    net_failed_unchanged[of env i s] both_failed_returns[of env i s]
  by blast

lemma down_fails [simp]: "request_fails (env_with backend_down) q"
  by (simp add: request_fails_def env_with_def backend_down_def)

lemma e503_fails [simp]: "request_fails (env_with backend_503) q"
  by (simp add: request_fails_def env_with_def backend_503_def)

lemma empty_object_decodes [simp]: "\<not> request_fails (env_with backend_empty_object) q"
  by (simp add: request_fails_def env_with_def backend_empty_object_def ok_response_def)

theorem query_prometheus_fail_soft_witness:
  "request_fails (env_with backend_down) node_query \<and>
   fst (query_prometheus (env_with backend_down) node_query fresh) = empty_result \<and>
   fst (get_node_metrics (env_with backend_down) fresh) = None \<and>
   node_list (snd (get_node_metrics (env_with backend_down) fresh)) = [] \<and>
   request_fails (env_with backend_503) (disk_query_size (JStr ''A'')) \<and>
   fst (get_disk_metrics (env_with backend_503) (JStr ''A'') fresh) = None \<and>
   disk_list (snd (get_disk_metrics (env_with backend_503) (JStr ''A'') fresh)) = [] \<and>
   snd (query_prometheus (env_with backend_empty_object) node_query fresh) = fresh"
  using query_prometheus_fail_soft[of "env_with backend_down" node_query fresh "JStr ''A''"]
    query_prometheus_fail_soft[of "env_with backend_503" node_query fresh "JStr ''A''"]
    query_prometheus_fail_soft[of "env_with backend_empty_object" node_query fresh "JStr ''A''"]
  by (simp add: fresh_def)

text \<open>
  Claim C1 as stated fails for a body that decodes but has not the expected shape: the
  backend answers 200 with \<^verbatim>\<open>{}\<close>, the query returns \<^verbatim>\<open>{}\<close> and not the empty
  result, and node discovery raises KeyError. It also fails for a status outside 2xx
  that \<^verbatim>\<open>raise_for_status\<close> lets pass: a response with status 300 and a sample in its
  body is read like a successful one.
\<close>

theorem query_prometheus_nonconforming_counterexample:
  "query_prometheus (env_with backend_empty_object) node_query fresh = (JObj [], fresh) \<and>
   JObj [] \<noteq> empty_result \<and>
   get_node_metrics (env_with backend_empty_object) fresh = (Some KeyError, fresh) \<and>
   fst (query_prometheus (env_with backend_300) node_query fresh) \<noteq> empty_result \<and>
   node_list (snd (get_node_metrics (env_with backend_300) fresh)) = [JStr ''A'']"
  by (simp add: get_node_metrics_def query_prometheus_def query_try_def env_with_def
      backend_empty_object_def backend_300_def ok_response_def empty_result_def result_of_def
      result_body_def sample_node_def sample_def sample_label_def)

subsection \<open>Frame of the collectors\<close>

text \<open>
  Claim C9. Each collector changes its own record list only: whatever the instance, the
  backend and the state, \<open>get_disk_metrics\<close> leaves the node list and the CPU, memory and
  network lists as they were, and likewise for the three other collectors.
\<close>

theorem collectors_touch_own_list_only:
  "node_list (snd (get_disk_metrics env i s)) = node_list s \<and>
   cpu_list (snd (get_disk_metrics env i s)) = cpu_list s \<and>
   mem_list (snd (get_disk_metrics env i s)) = mem_list s \<and>
   net_list (snd (get_disk_metrics env i s)) = net_list s \<and>
   node_list (snd (get_cpu_metrics env i s)) = node_list s \<and>
   disk_list (snd (get_cpu_metrics env i s)) = disk_list s \<and>
   mem_list (snd (get_cpu_metrics env i s)) = mem_list s \<and>
   net_list (snd (get_cpu_metrics env i s)) = net_list s \<and>
   node_list (snd (get_mem_metrics env i s)) = node_list s \<and>
   disk_list (snd (get_mem_metrics env i s)) = disk_list s \<and>
   cpu_list (snd (get_mem_metrics env i s)) = cpu_list s \<and>
   net_list (snd (get_mem_metrics env i s)) = net_list s \<and>
   node_list (snd (get_net_metrics env i s)) = node_list s \<and>
   disk_list (snd (get_net_metrics env i s)) = disk_list s \<and>
   cpu_list (snd (get_net_metrics env i s)) = cpu_list s \<and>
   mem_list (snd (get_net_metrics env i s)) = mem_list s"
  by (simp add: get_disk_metrics_frame get_cpu_metrics_frame get_mem_metrics_frame
      get_net_metrics_frame)

subsection \<open>The record lists only grow\<close>

lemma generate_excel_report_frame:
  "node_list (snd (generate_excel_report env p s)) = node_list s \<and>
   disk_list (snd (generate_excel_report env p s)) = disk_list s \<and>
   cpu_list (snd (generate_excel_report env p s)) = cpu_list s \<and>
   mem_list (snd (generate_excel_report env p s)) = mem_list s \<and>
   net_list (snd (generate_excel_report env p s)) = net_list s \<and>
   outbox (snd (generate_excel_report env p s)) = outbox s"
  by (simp add: generate_excel_report_def split: sum.splits)

text \<open>
  Claim C10. The four record lists are empty after construction. Every operation of the
  collector keeps the entries a record list has: a collector appends the records of its
  node (which depend on the backend and the node only) behind them, and discovery, the
  query and the spreadsheet leave the record lists alone. So a collector called twice
  for a node appends the node's records twice, and so does the loop over a node list in
  which the node stands twice. Discovery, when it returns, assigns a node list that does
  not depend on the one before.
\<close>

theorem record_lists_only_grow:
  "disk_list (prometheus_metrics_init s) = [] \<and>
   cpu_list (prometheus_metrics_init s) = [] \<and>
   mem_list (prometheus_metrics_init s) = [] \<and>
   net_list (prometheus_metrics_init s) = [] \<and>
   disk_list (snd (get_disk_metrics env i s)) = disk_list s @ disk_records env i \<and>
   cpu_list (snd (get_cpu_metrics env i s)) = cpu_list s @ cpu_records env i \<and>
   mem_list (snd (get_mem_metrics env i s)) = mem_list s @ mem_records env i \<and>
   net_list (snd (get_net_metrics env i s)) = net_list s @ net_records env i \<and>
   disk_list (snd (get_disk_metrics env i (snd (get_disk_metrics env i s)))) =
     disk_list s @ disk_records env i @ disk_records env i \<and>
   cpu_list (snd (get_cpu_metrics env i (snd (get_cpu_metrics env i s)))) =
     cpu_list s @ cpu_records env i @ cpu_records env i \<and>
   mem_list (snd (get_mem_metrics env i (snd (get_mem_metrics env i s)))) =
     mem_list s @ mem_records env i @ mem_records env i \<and>
   net_list (snd (get_net_metrics env i (snd (get_net_metrics env i s)))) =
     net_list s @ net_records env i @ net_records env i \<and>
   (fst (collect_nodes env [i, i] s) = None \<longrightarrow>
      disk_list (snd (collect_nodes env [i, i] s)) =
        disk_list s @ disk_records env i @ disk_records env i \<and>
      cpu_list (snd (collect_nodes env [i, i] s)) =
        cpu_list s @ cpu_records env i @ cpu_records env i \<and>
      mem_list (snd (collect_nodes env [i, i] s)) =
        mem_list s @ mem_records env i @ mem_records env i \<and>
      net_list (snd (collect_nodes env [i, i] s)) =
        net_list s @ net_records env i @ net_records env i) \<and>
   disk_list (snd (get_node_metrics env s)) = disk_list s \<and>
   cpu_list (snd (get_node_metrics env s)) = cpu_list s \<and>
   mem_list (snd (get_node_metrics env s)) = mem_list s \<and>
   net_list (snd (get_node_metrics env s)) = net_list s \<and>
   disk_list (snd (query_prometheus env q s)) = disk_list s \<and>
   cpu_list (snd (query_prometheus env q s)) = cpu_list s \<and>
   mem_list (snd (query_prometheus env q s)) = mem_list s \<and>
   net_list (snd (query_prometheus env q s)) = net_list s \<and>
   disk_list (snd (generate_excel_report env p s)) = disk_list s \<and>
   cpu_list (snd (generate_excel_report env p s)) = cpu_list s \<and>
   mem_list (snd (generate_excel_report env p s)) = mem_list s \<and>
   net_list (snd (generate_excel_report env p s)) = net_list s \<and>
   (fst (get_node_metrics env s) = None \<longrightarrow>
      node_list (snd (get_node_metrics env s)) = node_list (snd (get_node_metrics env fresh)))"
proof -
  have nodes: "fst (collect_nodes env [i, i] s) = None \<longrightarrow>
      disk_list (snd (collect_nodes env [i, i] s)) =
        disk_list s @ disk_records env i @ disk_records env i \<and>
      cpu_list (snd (collect_nodes env [i, i] s)) =
        cpu_list s @ cpu_records env i @ cpu_records env i \<and>
      mem_list (snd (collect_nodes env [i, i] s)) =
        mem_list s @ mem_records env i @ mem_records env i \<and>
      net_list (snd (collect_nodes env [i, i] s)) =
        net_list s @ net_records env i @ net_records env i"
    using collect_nodes_lists[of env "[i, i]" s] by simp
  have discovery: "fst (get_node_metrics env s) = None \<longrightarrow>
      node_list (snd (get_node_metrics env s)) = node_list (snd (get_node_metrics env fresh))"
    using get_node_metrics_replaces[of env s fresh] by simp
  show ?thesis
    using nodes discovery
    by (simp add: get_disk_metrics_appends get_cpu_metrics_appends get_mem_metrics_appends
        get_net_metrics_appends get_node_metrics_frame generate_excel_report_frame)
qed

lemma half_full_disk_records:
  "disk_records (env_with backend_half_full) (JStr ''A'') =
     [\<lparr>d_device = JStr ''/dev/sda1'', d_usage_percent = 50, d_instance = JStr ''A'',
       d_mount_point = JStr ''/'', d_size = format_bytes 107374182400,
       d_free = format_bytes 53687091200, d_used = format_bytes 53687091200\<rparr>]"
  by (simp add: disk_records_def get_disk_metrics_def query_prometheus_def query_try_def
      env_with_def backend_half_full_def ok_response_def result_body_def sample_def
      zip_results_def result_of_def disk_entry_def sample_value_def sample_label_def
      decimal_val_def digit_val_def fresh_def disk_query_size_def disk_query_free_def
      node_query_def Let_def)

lemma half_full_other_queries:
  "q \<noteq> node_query \<Longrightarrow> q \<noteq> disk_query_size (JStr ''A'') \<Longrightarrow> q \<noteq> disk_query_free (JStr ''A'') \<Longrightarrow>
   query_prometheus (env_with backend_half_full) q s = (result_body [], s)"
  by (simp add: query_prometheus_def query_try_def env_with_def backend_half_full_def ok_response_def)

lemma zip_results_no_samples [simp]: "zip_results (result_body []) (result_body []) = Inr []"
  by (simp add: zip_results_def result_of_def result_body_def)

lemma half_full_quiet:
  "get_cpu_metrics (env_with backend_half_full) (JStr ''A'') s = (None, s)"
  "get_mem_metrics (env_with backend_half_full) (JStr ''A'') s = (None, s)"
  "get_net_metrics (env_with backend_half_full) (JStr ''A'') s = (None, s)"
  by (simp_all add: get_cpu_metrics_def get_mem_metrics_def get_net_metrics_def
      half_full_other_queries cpu_query_usage_percent_def cpu_query_core_num_def
      mem_query_total_def mem_query_avail_def net_query_rx_def net_query_tx_def
      disk_query_size_def disk_query_free_def node_query_def)

lemma half_full_disk_returns:
  "fst (get_disk_metrics (env_with backend_half_full) (JStr ''A'') s) = None"
  by (simp add: get_disk_metrics_eq query_prometheus_def query_try_def
      env_with_def backend_half_full_def ok_response_def result_body_def sample_def
      zip_results_def result_of_def disk_entry_def sample_value_def sample_label_def
      decimal_val_def digit_val_def disk_query_size_def disk_query_free_def node_query_def Let_def)

lemma half_full_collect_twice:
  "fst (collect_nodes (env_with backend_half_full) [JStr ''A'', JStr ''A''] s) = None"
  by (simp add: then_do_None half_full_quiet half_full_disk_returns)

lemma half_full_discovery:
  "get_node_metrics (env_with backend_half_full) s = (None, s\<lparr>node_list := [JStr ''A'']\<rparr>)"
  by (simp add: get_node_metrics_def query_prometheus_def query_try_def env_with_def
      backend_half_full_def ok_response_def result_of_def result_body_def sample_node_def
      sample_def sample_label_def)

theorem record_lists_only_grow_witness:
  "fst (collect_nodes (env_with backend_half_full) [JStr ''A'', JStr ''A''] fresh) = None \<and>
   map d_usage_percent
     (disk_list (snd (collect_nodes (env_with backend_half_full) [JStr ''A'', JStr ''A''] fresh))) =
     [50, 50] \<and>
   fst (get_node_metrics (env_with backend_half_full) (fresh\<lparr>node_list := [JStr ''B'']\<rparr>)) = None \<and>
   node_list (snd (get_node_metrics (env_with backend_half_full) (fresh\<lparr>node_list := [JStr ''B'']\<rparr>))) =
     [JStr ''A'']"
proof -
  let ?E = "env_with backend_half_full"
  let ?A = "JStr ''A''"
  let ?s = "fresh\<lparr>node_list := [JStr ''B'']\<rparr>"
  have twice: "fst (collect_nodes ?E [?A, ?A] fresh) = None"
    by (rule half_full_collect_twice)
  have "disk_list (snd (collect_nodes ?E [?A, ?A] fresh)) =
          disk_list fresh @ disk_records ?E ?A @ disk_records ?E ?A"
    using record_lists_only_grow[of fresh ?E ?A node_query excel_report_path] twice by blast
  then have disks: "map d_usage_percent (disk_list (snd (collect_nodes ?E [?A, ?A] fresh))) = [50, 50]"
    by (simp add: half_full_disk_records fresh_def)
  have found: "fst (get_node_metrics ?E ?s) = None"
    by (simp add: half_full_discovery)
  have "node_list (snd (get_node_metrics ?E ?s)) = node_list (snd (get_node_metrics ?E fresh))"
    using record_lists_only_grow[of ?s ?E ?A node_query excel_report_path] found by blast
  then have nodes: "node_list (snd (get_node_metrics ?E ?s)) = [JStr ''A'']"
    by (simp add: half_full_discovery)
  show ?thesis using twice disks found nodes by simp
qed

subsection \<open>Unit formatting\<close>









lemma format_bits_loop_through:
  "\<forall>j<length units. 1000 \<le> v / 1000 ^ j \<Longrightarrow>
   format_bits_loop units v = fmt2 (v / 1000 ^ length units) @ '' Tbps''"
proof (induction units arbitrary: v)
  case Nil
  then show ?case by simp
next
  case (Cons u us)
  from Cons.prems have ge: "1000 \<le> v" by force
  have a: "\<forall>j<length us. 1000 \<le> v / 1000 / 1000 ^ j"
  proof (intro allI impI)
    fix j assume "j < length us"
    with Cons.prems have "1000 \<le> v / 1000 ^ Suc j" by auto
    then show "1000 \<le> v / 1000 / 1000 ^ j" by simp
  qed
  from Cons.IH[OF a] ge show ?case by simp
qed

lemma above_all_units:
  fixes v b :: rat
  assumes "b ^ Suc n \<le> v" "1 \<le> b" "j \<le> n"
  shows "b \<le> v / b ^ j"
proof -
  have "b ^ Suc j \<le> b ^ Suc n" using assms by (intro power_increasing) auto
  with assms(1) have "b * b ^ j \<le> v" by simp
  moreover have "0 < b ^ j" using assms(2) by simp
  ultimately show ?thesis by (simp add: pos_le_divide_eq)
qed


lemma format_bits_Tbps:
  assumes "1000 ^ 4 \<le> v"
  shows "format_bits_per_second v = fmt2 (v / 1000 ^ 4) @ '' Tbps'' \<and> 1 \<le> v / 1000 ^ 4"
proof -
  have "\<forall>j<4. (1000::rat) \<le> v / 1000 ^ j"
  proof (intro allI impI)
    fix j :: nat assume "j < 4"
    then have "j \<le> 3" by simp
    from above_all_units[of 1000 3 v j] assms this show "1000 \<le> v / 1000 ^ j" by simp
  qed
  then have "format_bits_per_second v = fmt2 (v / 1000 ^ 4) @ '' Tbps''"
    unfolding format_bits_per_second_def
    using format_bits_loop_through[of "[''bps'', ''Kbps'', ''Mbps'', ''Gbps'']" v] by simp
  moreover from assms have "1 \<le> v / 1000 ^ 4" by simp
  ultimately show ?thesis by simp
qed





subsection \<open>Usage percent\<close>














subsection \<open>No clamping\<close>










subsection \<open>Positional pairing\<close>







subsection \<open>Attachments\<close>

lemma attach_each_result:
  "attach_each ps m s =
     (m\<lparr>parts := parts m @
          map (\<lambda>p. Attachment_part (path_name p) (projr (files s p)))
            (filter (\<lambda>p. \<not> isl (files s p)) ps)\<rparr>,
      s\<lparr>logged := logged s @
          map (\<lambda>p. Attach_failed p (projl (files s p))) (filter (\<lambda>p. isl (files s p)) ps)\<rparr>)"
proof (induction ps arbitrary: m s)
  case Nil
  show ?case by simp
next
  case (Cons p ps)
  show ?case
  proof (cases "files s p")
    case (Inl e)
    then show ?thesis by (simp add: Cons.IH log_line_def)
  next
    case (Inr d)
    then show ?thesis by (simp add: Cons.IH)
  qed
qed

lemma add_attachments_result:
  "add_attachments m (Some ps) s =
     (m\<lparr>parts := parts m @
          map (\<lambda>p. Attachment_part (path_name p) (projr (files s p)))
            (filter (\<lambda>p. \<not> isl (files s p)) ps)\<rparr>,
      s\<lparr>logged := logged s @
          map (\<lambda>p. Attach_failed p (projl (files s p))) (filter (\<lambda>p. isl (files s p)) ps)\<rparr>)"
  by (cases ps) (simp_all add: add_attachments_def attach_each_result del: attach_each.simps)

lemma add_attachments_None [simp]: "add_attachments m None s = (m, s)"
  by (simp add: add_attachments_def)

lemma add_attachments_frame:
  "node_list (snd (add_attachments m atts s)) = node_list s \<and>
   disk_list (snd (add_attachments m atts s)) = disk_list s \<and>
   cpu_list (snd (add_attachments m atts s)) = cpu_list s \<and>
   mem_list (snd (add_attachments m atts s)) = mem_list s \<and>
   net_list (snd (add_attachments m atts s)) = net_list s \<and>
   files (snd (add_attachments m atts s)) = files s \<and>
   outbox (snd (add_attachments m atts s)) = outbox s"
  by (cases atts) (simp_all add: add_attachments_result)

subsection \<open>The SMTP session\<close>


lemma send_message_log:
  "\<exists>l. logged (snd (send_message env config m s)) = logged s @ [l] \<and>
       (if fst (send_message env config m s) then l = Email_sent else (\<exists>e. l = Smtp_failed e))"
  by (simp add: send_message_def Let_def split: option.splits)

lemma send_message_ok:
  "smtp env = smtp_ok \<Longrightarrow>
   send_message env config m s =
     (True, log_line Email_sent (s\<lparr>outbox := outbox s @ [(username config, recipients config, m)]\<rparr>))"
  by (simp add: send_message_def smtp_ok_def)

lemma send_eq:
  "send env config subj body html atts s =
     (case create_message env config subj body html of
        Inl e \<Rightarrow> (False, log_line (Send_failed e) s)
      | Inr m \<Rightarrow>
          send_message env config (fst (add_attachments m atts s)) (snd (add_attachments m atts s)))"
  by (simp add: send_def case_prod_beta split: sum.splits)

lemma create_message_result:
  "create_message env config subj body html =
     (case mime_text env body (if html then ''html'' else ''plain'') of
        Some e \<Rightarrow> Inl e
      | None \<Rightarrow>
          Inr \<lparr>headers =
                 [(''From'', from_name config @ '' <'' @ username config @ ''>''),
                  (''To'', join '', '' (recipients config)),
                  (''Subject'', subj)],
               parts = [Text_part (if html then ''html'' else ''plain'') body]\<rparr>)"
  by (simp add: create_message_def Let_def)

text \<open>
  Claim C8. An attachment whose file cannot be read is logged and skipped: after
  \<open>add_attachments\<close> the message has its former parts followed by one attachment for each
  readable path, in order, and one failure is logged for each unreadable path. When the
  body is accepted and the SMTP session succeeds, \<open>send\<close> returns \<open>True\<close>, and the message
  submitted consists of the body and the readable attachments.
\<close>

theorem unreadable_attachment_skipped:
  "parts (fst (add_attachments m (Some ps) s)) =
     parts m @ map (\<lambda>p. Attachment_part (path_name p) (projr (files s p)))
                (filter (\<lambda>p. \<not> isl (files s p)) ps) \<and>
   headers (fst (add_attachments m (Some ps) s)) = headers m \<and>
   logged (snd (add_attachments m (Some ps) s)) =
     logged s @ map (\<lambda>p. Attach_failed p (projl (files s p))) (filter (\<lambda>p. isl (files s p)) ps) \<and>
   (mime_text env body (if html then ''html'' else ''plain'') = None \<and> smtp env = smtp_ok \<longrightarrow>
      fst (send env config subj body html (Some ps) s) = True \<and>
      outbox (snd (send env config subj body html (Some ps) s)) =
        outbox s @
        [(username config, recipients config,
          \<lparr>headers =
             [(''From'', from_name config @ '' <'' @ username config @ ''>''),
              (''To'', join '', '' (recipients config)),
              (''Subject'', subj)],
           parts =
             Text_part (if html then ''html'' else ''plain'') body #
             map (\<lambda>p. Attachment_part (path_name p) (projr (files s p)))
               (filter (\<lambda>p. \<not> isl (files s p)) ps)\<rparr>)] \<and>
      logged (snd (send env config subj body html (Some ps) s)) =
        logged s @
        map (\<lambda>p. Attach_failed p (projl (files s p))) (filter (\<lambda>p. isl (files s p)) ps) @
        [Email_sent])"
  by (simp add: add_attachments_result send_eq create_message_result send_message_ok)

lemma one_file_files:
  "files one_file (Path [''missing.bin'']) = Inl (LibraryError ''FileNotFoundError'')"
  "files one_file (Path [''logs'', ''a.txt'']) = Inr ''data''"
  by (simp_all add: one_file_def fresh_def)

theorem unreadable_attachment_skipped_witness:
  "fst (send (env_with backend_down) example_config ''subject'' ''<p>body</p>'' True
         (Some [Path [''missing.bin''], Path [''logs'', ''a.txt'']]) one_file) = True \<and>
   map (\<lambda>x. parts (snd (snd x)))
     (outbox (snd (send (env_with backend_down) example_config ''subject'' ''<p>body</p>'' True
         (Some [Path [''missing.bin''], Path [''logs'', ''a.txt'']]) one_file))) =
     [[Text_part ''html'' ''<p>body</p>'', Attachment_part ''a.txt'' ''data'']] \<and>
   logged (snd (send (env_with backend_down) example_config ''subject'' ''<p>body</p>'' True
         (Some [Path [''missing.bin''], Path [''logs'', ''a.txt'']]) one_file)) =
     [Attach_failed (Path [''missing.bin'']) (LibraryError ''FileNotFoundError''), Email_sent]"
proof -
  let ?E = "env_with backend_down"
  have h: "mime_text ?E ''<p>body</p>'' (if True then ''html'' else ''plain'') = None \<and> smtp ?E = smtp_ok"
    by (simp add: env_with_def)
  have empty: "outbox one_file = []" "logged one_file = []"
    by (simp_all add: one_file_def fresh_def)
  note t = unreadable_attachment_skipped[where env = ?E and body = "''<p>body</p>''" and html = True
      and config = example_config and subj = "''subject''" and s = one_file
      and ps = "[Path [''missing.bin''], Path [''logs'', ''a.txt'']]",
      THEN conjunct2, THEN conjunct2, THEN conjunct2, rule_format, OF h]
  show ?thesis using t by (simp add: one_file_files empty path_name_def)
qed

subsection \<open>The result of send\<close>

lemma add_attachments_log:
  "\<exists>ls. logged (snd (add_attachments m atts s)) = logged s @ ls \<and>
        (\<forall>x\<in>set ls. \<exists>p e. x = Attach_failed p e)"
proof (cases atts)
  case None
  then show ?thesis by simp
next
  case (Some ps)
  have "logged (snd (add_attachments m (Some ps) s)) =
          logged s @ map (\<lambda>p. Attach_failed p (projl (files s p))) (filter (\<lambda>p. isl (files s p)) ps)"
    by (simp add: add_attachments_result)
  moreover have "\<forall>x\<in>set (map (\<lambda>p. Attach_failed p (projl (files s p)))
      (filter (\<lambda>p. isl (files s p)) ps)). \<exists>p e. x = Attach_failed p e"
    by auto
  ultimately show ?thesis using Some by blast
qed


lemma send_rejected:
  "mime_text env body (if html then ''html'' else ''plain'') = Some e \<Longrightarrow>
   send env config subj body html atts s = (False, log_line (Send_failed e) s)"
  by (simp add: send_eq create_message_result)

lemma send_log:
  "\<exists>ls l. logged (snd (send env config subj body html atts s)) = logged s @ ls @ [l] \<and>
          (\<forall>x\<in>set ls. \<exists>p e. x = Attach_failed p e) \<and>
          (if fst (send env config subj body html atts s) then l = Email_sent
           else (\<exists>e. l = Send_failed e \<or> l = Smtp_failed e))"
proof (cases "create_message env config subj body html")
  case (Inl e)
  then have "send env config subj body html atts s = (False, log_line (Send_failed e) s)"
    by (simp add: send_eq)
  then have "logged (snd (send env config subj body html atts s)) = logged s @ [] @ [Send_failed e]"
    "\<not> fst (send env config subj body html atts s)"
    by simp_all
  then show ?thesis by (intro exI[of _ "[]"] exI[of _ "Send_failed e"]) simp
next
  case (Inr m)
  let ?m = "fst (add_attachments m atts s)"
  let ?s1 = "snd (add_attachments m atts s)"
  from Inr have eq: "send env config subj body html atts s = send_message env config ?m ?s1"
    by (simp add: send_eq)
  obtain ls where ls: "logged ?s1 = logged s @ ls" "\<forall>x\<in>set ls. \<exists>p e. x = Attach_failed p e"
    using add_attachments_log[of m atts s] by blast
  obtain l where l: "logged (snd (send_message env config ?m ?s1)) = logged ?s1 @ [l]"
    "if fst (send_message env config ?m ?s1) then l = Email_sent else (\<exists>e. l = Smtp_failed e)"
    using send_message_log[of env config ?m ?s1] by blast
  have "logged (snd (send env config subj body html atts s)) = logged s @ ls @ [l]"
    using eq ls(1) l(1) by simp
  moreover have "if fst (send env config subj body html atts s) then l = Email_sent
           else (\<exists>e. l = Send_failed e \<or> l = Smtp_failed e)"
    using eq l(2) by (auto split: if_splits)
  ultimately show ?thesis using ls(2) by blast
qed



lemma env_with_fields:
  "mime_text (env_with b) body t = None"
  "smtp (env_with b) = smtp_ok"
  "http_get (env_with b) = b"
  by (simp_all add: env_with_def)

lemma smtp_ok_fields [simp]:
  "connect smtp_ok = None" "starttls smtp_ok = None" "login smtp_ok = None"
  "sendmail smtp_ok = None" "quit smtp_ok = None"
  by (simp_all add: smtp_ok_def)



subsection \<open>Steps that handle no mail\<close>

lemma no_mail_refl [simp]: "no_mail_step s s"
  by (simp add: no_mail_step_def)

lemma no_mail_trans: "no_mail_step s s1 \<Longrightarrow> no_mail_step s1 s2 \<Longrightarrow> no_mail_step s s2"
  by (auto simp: no_mail_step_def)

lemma no_mail_query: "no_mail_step s (snd (query_prometheus env q s))"
  by (simp add: no_mail_step_def query_prometheus_def log_line_def split: sum.splits)

lemma no_mail_update:
  "no_mail_step s s' \<Longrightarrow> no_mail_step s (s'\<lparr>node_list := ns\<rparr>)"
  "no_mail_step s s' \<Longrightarrow> no_mail_step s (s'\<lparr>disk_list := ds\<rparr>)"
  "no_mail_step s s' \<Longrightarrow> no_mail_step s (s'\<lparr>cpu_list := cs\<rparr>)"
  "no_mail_step s s' \<Longrightarrow> no_mail_step s (s'\<lparr>mem_list := ms\<rparr>)"
  "no_mail_step s s' \<Longrightarrow> no_mail_step s (s'\<lparr>net_list := nts\<rparr>)"
  by (simp_all add: no_mail_step_def)

lemma no_mail_two_queries:
  "no_mail_step s (snd (query_prometheus env q2 (snd (query_prometheus env q1 s))))"
  by (rule no_mail_trans[OF no_mail_query no_mail_query])

lemma no_mail_get_node_metrics: "no_mail_step s (snd (get_node_metrics env s))"
  by (simp add: get_node_metrics_eq no_mail_query no_mail_update split: sum.splits)

lemma no_mail_get_disk_metrics: "no_mail_step s (snd (get_disk_metrics env i s))"
  by (simp add: get_disk_metrics_eq Let_def no_mail_two_queries no_mail_update split: sum.splits)

lemma no_mail_get_cpu_metrics: "no_mail_step s (snd (get_cpu_metrics env i s))"
  by (simp add: get_cpu_metrics_eq Let_def no_mail_two_queries no_mail_update split: sum.splits)

lemma no_mail_get_mem_metrics: "no_mail_step s (snd (get_mem_metrics env i s))"
  by (simp add: get_mem_metrics_eq Let_def no_mail_two_queries no_mail_update split: sum.splits)

lemma no_mail_get_net_metrics: "no_mail_step s (snd (get_net_metrics env i s))"
  by (simp add: get_net_metrics_eq Let_def no_mail_two_queries no_mail_update split: sum.splits)

lemma no_mail_then_do:
  assumes "no_mail_step s (snd r)" and "\<And>s1. no_mail_step s1 (snd (f s1))"
  shows "no_mail_step s (snd (then_do r f))"
proof (cases "fst r")
  case None
  then have "snd (then_do r f) = snd (f (snd r))" by (simp add: then_do_def)
  with assms(1) assms(2)[of "snd r"] show ?thesis by (auto intro: no_mail_trans)
next
  case (Some e)
  then show ?thesis using assms(1) by (simp add: then_do_def)
qed

lemma no_mail_collect_nodes: "no_mail_step s (snd (collect_nodes env ns s))"
proof (induction ns arbitrary: s)
  case Nil
  show ?case by simp
next
  case (Cons n ns)
  show ?case
    unfolding collect_nodes.simps
    by (intro no_mail_then_do no_mail_get_disk_metrics no_mail_get_cpu_metrics
        no_mail_get_mem_metrics no_mail_get_net_metrics Cons.IH)
qed

lemma no_mail_generate_excel_report: "no_mail_step s (snd (generate_excel_report env p s))"
  by (simp add: generate_excel_report_def no_mail_step_def log_line_def split: sum.splits)

lemma before_send_eq:
  "before_send env s =
     (let r1 = get_node_metrics env s;
          r2 = collect_nodes env (node_list (snd r1)) (snd r1);
          r3 = generate_excel_report env excel_report_path (snd r2)
      in case fst r1 of
           Some e \<Rightarrow> (Inl e, snd r1)
         | None \<Rightarrow>
             (case fst r2 of
                Some e \<Rightarrow> (Inl e, snd r2)
              | None \<Rightarrow>
                  (case fst r3 of
                     Some e \<Rightarrow> (Inl e, snd r3)
                   | None \<Rightarrow> (generate_html_report env (snd r3), snd r3))))"
proof -
  obtain x1 s1 where a: "get_node_metrics env s = (x1, s1)"
    by (cases "get_node_metrics env s")
  obtain x2 s2 where b: "collect_nodes env (node_list s1) s1 = (x2, s2)"
    by (cases "collect_nodes env (node_list s1) s1")
  obtain x3 s3 where c: "generate_excel_report env excel_report_path s2 = (x3, s3)"
    by (cases "generate_excel_report env excel_report_path s2")
  show ?thesis by (simp add: before_send_def Let_def a b c split: option.splits)
qed

lemma no_mail_before_send: "no_mail_step s (snd (before_send env s))"
proof -
  let ?s1 = "snd (get_node_metrics env s)"
  let ?s2 = "snd (collect_nodes env (node_list ?s1) ?s1)"
  let ?s3 = "snd (generate_excel_report env excel_report_path ?s2)"
  have a: "no_mail_step s ?s1" by (rule no_mail_get_node_metrics)
  have b: "no_mail_step s ?s2" by (rule no_mail_trans[OF a no_mail_collect_nodes])
  have c: "no_mail_step s ?s3" by (rule no_mail_trans[OF b no_mail_generate_excel_report])
  show ?thesis using a b c by (simp add: before_send_eq Let_def split: option.splits)
qed

lemma send_leaves_mail_entry:
  "filter is_mail_entry (logged (snd (send env config subj body html atts s))) \<noteq>
   filter is_mail_entry (logged s)"
proof -
  obtain ls l where l: "logged (snd (send env config subj body html atts s)) = logged s @ ls @ [l]"
    "if fst (send env config subj body html atts s) then l = Email_sent
     else (\<exists>e. l = Send_failed e \<or> l = Smtp_failed e)"
    using send_log[of env config subj body html atts s] by blast
  from l(2) have "is_mail_entry l" by (auto split: if_splits)
  with l(1) show ?thesis by simp
qed

text \<open>
  Claim C7. When a statement of the \<open>try\<close> block before the call of \<open>send\<close> raises
  (discovery, a collection step past the query's own handler, the spreadsheet, or the
  HTML rendering), \<open>run\<close> logs that exception as its last entry and returns; no mail was
  attempted: the outbox is as before and the log has no new entry of the mail sender,
  whereas every call of \<open>send\<close> leaves such an entry. Without an exception \<open>run\<close> goes on
  to \<open>send\<close>.
\<close>

theorem run_failure_sends_nothing:
  "(fst (get_node_metrics env s) = Some e \<longrightarrow> fst (before_send env s) = Inl e) \<and>
   (fst (get_node_metrics env s) = None \<and>
    fst (collect_nodes env (node_list (snd (get_node_metrics env s))) (snd (get_node_metrics env s))) =
      Some e \<longrightarrow> fst (before_send env s) = Inl e) \<and>
   (fst (get_node_metrics env s) = None \<and>
    fst (collect_nodes env (node_list (snd (get_node_metrics env s))) (snd (get_node_metrics env s))) =
      None \<and>
    fst (generate_excel_report env excel_report_path
          (snd (collect_nodes env (node_list (snd (get_node_metrics env s)))
                 (snd (get_node_metrics env s))))) = Some e \<longrightarrow>
      fst (before_send env s) = Inl e) \<and>
   (fst (get_node_metrics env s) = None \<and>
    fst (collect_nodes env (node_list (snd (get_node_metrics env s))) (snd (get_node_metrics env s))) =
      None \<and>
    fst (generate_excel_report env excel_report_path
          (snd (collect_nodes env (node_list (snd (get_node_metrics env s)))
                 (snd (get_node_metrics env s))))) = None \<and>
    generate_html_report env
      (snd (generate_excel_report env excel_report_path
             (snd (collect_nodes env (node_list (snd (get_node_metrics env s)))
                    (snd (get_node_metrics env s)))))) = Inl e \<longrightarrow>
      fst (before_send env s) = Inl e) \<and>
   (fst (before_send env s) = Inl e \<longrightarrow>
      run env config s = log_line (Run_failed e) (snd (before_send env s)) \<and>
      last (logged (run env config s)) = Run_failed e \<and>
      outbox (run env config s) = outbox s \<and>
      filter is_mail_entry (logged (run env config s)) = filter is_mail_entry (logged s)) \<and>
   (fst (before_send env s) = Inr html_report \<longrightarrow>
      run env config s =
        snd (send env config (subject config) html_report True (Some [excel_report_path])
               (snd (before_send env s)))) \<and>
   filter is_mail_entry (logged (snd (send env config subj body html atts s))) \<noteq>
     filter is_mail_entry (logged s)"
proof -
  have stages:
    "fst (get_node_metrics env s) = Some e \<longrightarrow> fst (before_send env s) = Inl e"
    "fst (get_node_metrics env s) = None \<and>
     fst (collect_nodes env (node_list (snd (get_node_metrics env s))) (snd (get_node_metrics env s))) =
       Some e \<longrightarrow> fst (before_send env s) = Inl e"
    "fst (get_node_metrics env s) = None \<and>
     fst (collect_nodes env (node_list (snd (get_node_metrics env s))) (snd (get_node_metrics env s))) =
       None \<and>
     fst (generate_excel_report env excel_report_path
           (snd (collect_nodes env (node_list (snd (get_node_metrics env s)))
                  (snd (get_node_metrics env s))))) = Some e \<longrightarrow>
       fst (before_send env s) = Inl e"
    "fst (get_node_metrics env s) = None \<and>
     fst (collect_nodes env (node_list (snd (get_node_metrics env s))) (snd (get_node_metrics env s))) =
       None \<and>
     fst (generate_excel_report env excel_report_path
           (snd (collect_nodes env (node_list (snd (get_node_metrics env s)))
                  (snd (get_node_metrics env s))))) = None \<and>
     generate_html_report env
       (snd (generate_excel_report env excel_report_path
              (snd (collect_nodes env (node_list (snd (get_node_metrics env s)))
                     (snd (get_node_metrics env s)))))) = Inl e \<longrightarrow>
       fst (before_send env s) = Inl e"
    by (simp_all add: before_send_eq Let_def)
  have failed: "fst (before_send env s) = Inl e \<longrightarrow>
      run env config s = log_line (Run_failed e) (snd (before_send env s)) \<and>
      last (logged (run env config s)) = Run_failed e \<and>
      outbox (run env config s) = outbox s \<and>
      filter is_mail_entry (logged (run env config s)) = filter is_mail_entry (logged s)"
  proof
    assume a: "fst (before_send env s) = Inl e"
    then have r: "run env config s = log_line (Run_failed e) (snd (before_send env s))"
      by (cases "before_send env s") (simp add: run_def)
    from no_mail_before_send[of s env] obtain ls where
      "outbox (snd (before_send env s)) = outbox s"
      "logged (snd (before_send env s)) = logged s @ ls" "filter is_mail_entry ls = []"
      by (auto simp: no_mail_step_def)
    with r show "run env config s = log_line (Run_failed e) (snd (before_send env s)) \<and>
      last (logged (run env config s)) = Run_failed e \<and>
      outbox (run env config s) = outbox s \<and>
      filter is_mail_entry (logged (run env config s)) = filter is_mail_entry (logged s)"
      by simp
  qed
  have sent: "fst (before_send env s) = Inr html_report \<longrightarrow>
      run env config s =
        snd (send env config (subject config) html_report True (Some [excel_report_path])
               (snd (before_send env s)))"
    by (cases "before_send env s") (simp add: run_def)
  show ?thesis
    using stages failed sent send_leaves_mail_entry[of env config subj body html atts s]
    by blast
qed

subsection \<open>Runs in concrete surroundings\<close>

lemma query_prometheus_backend:
  "http_get env = http_get env' \<Longrightarrow> query_prometheus env q s = query_prometheus env' q s"
  by (simp add: query_prometheus_def query_try_def)

lemma collectors_backend:
  assumes "http_get env = http_get env'"
  shows "get_node_metrics env s = get_node_metrics env' s"
    and "get_disk_metrics env i s = get_disk_metrics env' i s"
    and "get_cpu_metrics env i s = get_cpu_metrics env' i s"
    and "get_mem_metrics env i s = get_mem_metrics env' i s"
    and "get_net_metrics env i s = get_net_metrics env' i s"
  by (simp_all add: get_node_metrics_def get_disk_metrics_def get_cpu_metrics_def
      get_mem_metrics_def get_net_metrics_def query_prometheus_backend[OF assms])

lemma collect_nodes_backend:
  "http_get env = http_get env' \<Longrightarrow> collect_nodes env ns s = collect_nodes env' ns s"
proof (induction ns arbitrary: s)
  case Nil
  show ?case by simp
next
  case (Cons n ns)
  note eqs = collectors_backend(2-5)[OF Cons.prems]
  have rest: "collect_nodes env ns = collect_nodes env' ns"
    by (rule ext) (rule Cons.IH[OF Cons.prems])
  show ?case by (simp add: eqs rest)
qed

lemma half_full_collect:
  "fst (collect_nodes (env_with backend_half_full) [JStr ''A''] s) = None"
  by (simp add: then_do_None half_full_quiet half_full_disk_returns)

lemma scenario_backends:
  "http_get env_excel_fails = http_get (env_with backend_half_full)"
  "http_get env_template_fails = http_get (env_with backend_half_full)"
  by (simp_all add: env_excel_fails_def env_template_fails_def)

lemma bad_disk_discovery:
  "get_node_metrics (env_with backend_bad_disk) s = (None, s\<lparr>node_list := [JStr ''A'']\<rparr>)"
  by (simp add: get_node_metrics_def query_prometheus_def query_try_def env_with_def
      backend_bad_disk_def ok_response_def result_of_def result_body_def sample_node_def
      sample_def sample_label_def)

lemma bad_disk_collect:
  "fst (collect_nodes (env_with backend_bad_disk) [JStr ''A''] s) = Some KeyError"
  by (simp add: get_disk_metrics_def query_prometheus_def query_try_def env_with_def
      backend_bad_disk_def ok_response_def zip_results_def result_of_def
      disk_query_size_def disk_query_free_def node_query_def)

lemma empty_object_discovery:
  "fst (get_node_metrics (env_with backend_empty_object) s) = Some KeyError"
  by (simp add: get_node_metrics_def query_prometheus_def query_try_def env_with_def
      backend_empty_object_def ok_response_def result_of_def)

lemma fresh_fields [simp]:
  "node_list fresh = []" "disk_list fresh = []" "cpu_list fresh = []" "mem_list fresh = []"
  "net_list fresh = []" "logged fresh = []" "outbox fresh = []"
  "files fresh p = Inl (LibraryError ''FileNotFoundError'')"
  by (simp_all add: fresh_def)

lemma discovered_A:
  assumes "get_node_metrics env s = (None, s\<lparr>node_list := [JStr ''A'']\<rparr>)"
  shows "fst (get_node_metrics env s) = None"
    and "collect_nodes env (node_list (snd (get_node_metrics env s))) (snd (get_node_metrics env s)) =
         collect_nodes env [JStr ''A''] (s\<lparr>node_list := [JStr ''A'']\<rparr>)"
  by (simp_all add: assms del: collect_nodes.simps)

lemma before_send_success:
  assumes n: "fst (get_node_metrics env s) = None"
    and c: "fst (collect_nodes env (node_list (snd (get_node_metrics env s)))
                  (snd (get_node_metrics env s))) = None"
    and x: "excel_writer env = (\<lambda>disks cpus mems nets. Inr workbook)"
    and h: "render_template env = (\<lambda>nodes disks cpus mems nets timestamp. Inr html_report)"
  shows "fst (before_send env s) = Inr html_report"
    and "files (snd (before_send env s)) excel_report_path = Inr workbook"
    and "outbox (snd (before_send env s)) = outbox s"
proof -
  have xr: "fst (generate_excel_report env excel_report_path s') = None"
    "files (snd (generate_excel_report env excel_report_path s')) excel_report_path = Inr workbook"
    for s'
    by (simp_all add: generate_excel_report_def x log_line_def)
  have hr: "generate_html_report env s' = Inr html_report" for s'
    by (simp add: generate_html_report_def h)
  show "fst (before_send env s) = Inr html_report"
    by (simp add: before_send_eq Let_def n c xr hr)
  show "files (snd (before_send env s)) excel_report_path = Inr workbook"
    by (simp add: before_send_eq Let_def n c xr hr)
  show "outbox (snd (before_send env s)) = outbox s"
    using no_mail_before_send[of s env] by (simp add: no_mail_step_def)
qed

lemma send_one_attachment:
  assumes "mime_text env body ''html'' = None" and "smtp env = smtp_ok"
    and "files s p = Inr payload"
  shows "map (\<lambda>x. parts (snd (snd x))) (outbox (snd (send env config subj body True (Some [p]) s))) =
           map (\<lambda>x. parts (snd (snd x))) (outbox s) @
           [[Text_part ''html'' body, Attachment_part (path_name p) payload]]"
  using assms
  by (simp add: send_eq create_message_result send_message_ok add_attachments_result)

theorem run_failure_sends_nothing_witness:
  "last (logged (run env_excel_fails example_config fresh)) = Run_failed (LibraryError ''PermissionError'') \<and>
   outbox (run env_excel_fails example_config fresh) = [] \<and>
   last (logged (run env_template_fails example_config fresh)) =
     Run_failed (LibraryError ''TemplateNotFound'') \<and>
   outbox (run env_template_fails example_config fresh) = [] \<and>
   last (logged (run (env_with backend_bad_disk) example_config fresh)) = Run_failed KeyError \<and>
   outbox (run (env_with backend_bad_disk) example_config fresh) = [] \<and>
   last (logged (run (env_with backend_empty_object) example_config fresh)) = Run_failed KeyError \<and>
   outbox (run (env_with backend_empty_object) example_config fresh) = [] \<and>
   map (\<lambda>x. parts (snd (snd x))) (outbox (run (env_with backend_half_full) example_config fresh)) =
     [[Text_part ''html'' ''<html></html>'', Attachment_part ''report.xlsx'' ''workbook'']]"
proof -
  let ?A = "JStr ''A''"
  let ?P = "LibraryError ''PermissionError''"
  let ?T = "LibraryError ''TemplateNotFound''"
  let ?s1 = "fresh\<lparr>node_list := [?A]\<rparr>"
  have a: "last (logged (run env_excel_fails example_config fresh)) = Run_failed ?P \<and>
      outbox (run env_excel_fails example_config fresh) = []"
  proof -
    let ?E = env_excel_fails
    note t = run_failure_sends_nothing[where env = ?E and s = fresh and e = ?P
        and config = example_config]
    have n: "get_node_metrics ?E fresh = (None, ?s1)"
      by (simp only: collectors_backend(1)[OF scenario_backends(1)] half_full_discovery)
    note d = discovered_A[OF n]
    have "fst (collect_nodes ?E [?A] ?s1) = None"
      by (simp only: collect_nodes_backend[OF scenario_backends(1)] half_full_collect)
    then have c: "fst (collect_nodes ?E (node_list (snd (get_node_metrics ?E fresh)))
                        (snd (get_node_metrics ?E fresh))) = None"
      by (simp only: d(2))
    have x: "fst (generate_excel_report ?E excel_report_path
                   (snd (collect_nodes ?E (node_list (snd (get_node_metrics ?E fresh)))
                          (snd (get_node_metrics ?E fresh))))) = Some ?P"
      by (simp add: generate_excel_report_def env_excel_fails_def)
    have bs: "fst (before_send ?E fresh) = Inl ?P"
      by (rule t[THEN conjunct2, THEN conjunct2, THEN conjunct1, rule_format,
            OF conjI[OF d(1) conjI[OF c x]]])
    note f = t[THEN conjunct2, THEN conjunct2, THEN conjunct2, THEN conjunct2, THEN conjunct1,
        rule_format, OF bs]
    have "outbox (run ?E example_config fresh) = outbox fresh"
      by (rule f[THEN conjunct2, THEN conjunct2, THEN conjunct1])
    then have "outbox (run ?E example_config fresh) = []" by simp
    with f[THEN conjunct2, THEN conjunct1] show ?thesis by (rule conjI)
  qed
  have b: "last (logged (run env_template_fails example_config fresh)) = Run_failed ?T \<and>
      outbox (run env_template_fails example_config fresh) = []"
  proof -
    let ?E = env_template_fails
    note t = run_failure_sends_nothing[where env = ?E and s = fresh and e = ?T
        and config = example_config]
    have n: "get_node_metrics ?E fresh = (None, ?s1)"
      by (simp only: collectors_backend(1)[OF scenario_backends(2)] half_full_discovery)
    note d = discovered_A[OF n]
    have "fst (collect_nodes ?E [?A] ?s1) = None"
      by (simp only: collect_nodes_backend[OF scenario_backends(2)] half_full_collect)
    then have c: "fst (collect_nodes ?E (node_list (snd (get_node_metrics ?E fresh)))
                        (snd (get_node_metrics ?E fresh))) = None"
      by (simp only: d(2))
    have x: "fst (generate_excel_report ?E excel_report_path
                   (snd (collect_nodes ?E (node_list (snd (get_node_metrics ?E fresh)))
                          (snd (get_node_metrics ?E fresh))))) = None"
      by (simp add: generate_excel_report_def env_template_fails_def env_with_def)
    have h: "generate_html_report ?E
               (snd (generate_excel_report ?E excel_report_path
                      (snd (collect_nodes ?E (node_list (snd (get_node_metrics ?E fresh)))
                             (snd (get_node_metrics ?E fresh)))))) = Inl ?T"
      by (simp add: generate_html_report_def env_template_fails_def)
    have bs: "fst (before_send ?E fresh) = Inl ?T"
      by (rule t[THEN conjunct2, THEN conjunct2, THEN conjunct2, THEN conjunct1, rule_format,
            OF conjI[OF d(1) conjI[OF c conjI[OF x h]]]])
    note f = t[THEN conjunct2, THEN conjunct2, THEN conjunct2, THEN conjunct2, THEN conjunct1,
        rule_format, OF bs]
    have "outbox (run ?E example_config fresh) = outbox fresh"
      by (rule f[THEN conjunct2, THEN conjunct2, THEN conjunct1])
    then have "outbox (run ?E example_config fresh) = []" by simp
    with f[THEN conjunct2, THEN conjunct1] show ?thesis by (rule conjI)
  qed
  have c: "last (logged (run (env_with backend_bad_disk) example_config fresh)) = Run_failed KeyError \<and>
      outbox (run (env_with backend_bad_disk) example_config fresh) = []"
  proof -
    let ?E = "env_with backend_bad_disk"
    note t = run_failure_sends_nothing[where env = ?E and s = fresh and e = KeyError
        and config = example_config]
    note d = discovered_A[OF bad_disk_discovery[of fresh]]
    have c: "fst (collect_nodes ?E (node_list (snd (get_node_metrics ?E fresh)))
                        (snd (get_node_metrics ?E fresh))) = Some KeyError"
      by (simp only: d(2) bad_disk_collect)
    have bs: "fst (before_send ?E fresh) = Inl KeyError"
      by (rule t[THEN conjunct2, THEN conjunct1, rule_format, OF conjI[OF d(1) c]])
    note f = t[THEN conjunct2, THEN conjunct2, THEN conjunct2, THEN conjunct2, THEN conjunct1,
        rule_format, OF bs]
    have "outbox (run ?E example_config fresh) = outbox fresh"
      by (rule f[THEN conjunct2, THEN conjunct2, THEN conjunct1])
    then have "outbox (run ?E example_config fresh) = []" by simp
    with f[THEN conjunct2, THEN conjunct1] show ?thesis by (rule conjI)
  qed
  have d: "last (logged (run (env_with backend_empty_object) example_config fresh)) =
        Run_failed KeyError \<and>
      outbox (run (env_with backend_empty_object) example_config fresh) = []"
  proof -
    let ?E = "env_with backend_empty_object"
    note t = run_failure_sends_nothing[where env = ?E and s = fresh and e = KeyError
        and config = example_config]
    have bs: "fst (before_send ?E fresh) = Inl KeyError"
      by (rule t[THEN conjunct1, rule_format, OF empty_object_discovery])
    note f = t[THEN conjunct2, THEN conjunct2, THEN conjunct2, THEN conjunct2, THEN conjunct1,
        rule_format, OF bs]
    have "outbox (run ?E example_config fresh) = outbox fresh"
      by (rule f[THEN conjunct2, THEN conjunct2, THEN conjunct1])
    then have "outbox (run ?E example_config fresh) = []" by simp
    with f[THEN conjunct2, THEN conjunct1] show ?thesis by (rule conjI)
  qed
  have e: "map (\<lambda>x. parts (snd (snd x)))
             (outbox (run (env_with backend_half_full) example_config fresh)) =
           [[Text_part ''html'' ''<html></html>'', Attachment_part ''report.xlsx'' ''workbook'']]"
  proof -
    let ?E = "env_with backend_half_full"
    note t = run_failure_sends_nothing[where env = ?E and s = fresh
        and config = example_config and html_report = "''<html></html>''"]
    note d = discovered_A[OF half_full_discovery[of fresh]]
    have c: "fst (collect_nodes ?E (node_list (snd (get_node_metrics ?E fresh)))
                        (snd (get_node_metrics ?E fresh))) = None"
      by (simp only: d(2) half_full_collect)
    have x: "excel_writer ?E = (\<lambda>disks cpus mems nets. Inr ''workbook'')"
      by (simp add: env_with_def)
    have h: "render_template ?E = (\<lambda>nodes disks cpus mems nets timestamp. Inr ''<html></html>'')"
      by (simp add: env_with_def)
    note bs = before_send_success[OF d(1) c x h]
    have r: "run ?E example_config fresh =
        snd (send ?E example_config (subject example_config) ''<html></html>'' True
               (Some [excel_report_path]) (snd (before_send ?E fresh)))"
      by (rule t[THEN conjunct2, THEN conjunct2, THEN conjunct2, THEN conjunct2, THEN conjunct2,
            THEN conjunct1, rule_format, OF bs(1)])
    have "map (\<lambda>x. parts (snd (snd x)))
            (outbox (snd (send ?E example_config (subject example_config) ''<html></html>'' True
               (Some [excel_report_path]) (snd (before_send ?E fresh))))) =
          map (\<lambda>x. parts (snd (snd x))) (outbox (snd (before_send ?E fresh))) @
          [[Text_part ''html'' ''<html></html>'', Attachment_part (path_name excel_report_path) ''workbook'']]"
      by (rule send_one_attachment[OF env_with_fields(1) env_with_fields(2) bs(2)])
    then show ?thesis
      unfolding r by (simp add: bs(3) path_name_def excel_report_path_def)
  qed
  from a b c d e show ?thesis by blast
qed

end
